theory Spec2Isabelle
  imports Main "HOL-Library.Word"
begin

section \<open>Values of the runtime\<close>

text \<open>
  The program is \<^verbatim>\<open>src/main.ts\<close>, a Deno HTTP server with three routes. Its own code
  is the two handlers \<^verbatim>\<open>handleAssetProxy\<close> and \<^verbatim>\<open>handlePublish\<close>, the dispatcher passed
  to \<^verbatim>\<open>serve\<close> and the constant \<^verbatim>\<open>corsHeaders\<close>. Everything else is the runtime:
  \<^verbatim>\<open>fetch\<close>, \<^verbatim>\<open>req.formData()\<close>, \<^verbatim>\<open>JSON.parse\<close> and \<^verbatim>\<open>serveDir\<close> depend on the
  outside world and are parameters of the model; the string and array methods and the
  \<^verbatim>\<open>Response\<close> constructor are deterministic and are written out below.

  A JavaScript string is modelled as a \<^typ>\<open>string\<close>, one \<^typ>\<open>char\<close> per UTF-16 code unit
  in the range U+0000 to U+00FF. The text produced by \<^verbatim>\<open>TextDecoder\<close> can hold any code
  unit and is a list of natural numbers instead. A \<^verbatim>\<open>Uint8Array\<close> is a list of bytes.
\<close>

type_synonym byte = "8 word"
type_synonym bytes = "byte list"
type_synonym units = "nat list"
type_synonym headers = "(string \<times> string) list"

text \<open>Thrown values: the class tested by \<^verbatim>\<open>instanceof\<close> and the \<^verbatim>\<open>message\<close> property.\<close>

datatype errorClass = TypeError | RangeError | NotFound | OtherError

datatype exn = Exn errorClass string

fun message :: "exn \<Rightarrow> string" where
  "message (Exn c m) = m"

fun isNotFound :: "exn \<Rightarrow> bool" where
  "isNotFound (Exn c m) = (c = NotFound)"

text \<open>
  The argument of \<^verbatim>\<open>JSON.stringify\<close> at each call site: the object literals
  \<^verbatim>\<open>{ error: s }\<close> and \<^verbatim>\<open>{ message: s }\<close>, or whatever \<^verbatim>\<open>JSON.parse\<close> returned
  (a value of the type parameter).
\<close>

datatype 'j jsdata = ErrorObj string | MessageObj string | Parsed 'j

text \<open>
  A response body: \<^verbatim>\<open>null\<close>, a string, the string \<^verbatim>\<open>JSON.stringify(d)\<close>, or a byte stream.
\<close>

datatype 'j body = NoBody | TextBody string | JsonBody "'j jsdata" | StreamBody bytes

record 'j response =
  status :: nat
  statusText :: string
  headers :: headers
  body :: "'j body"

subsection \<open>Strings\<close>

definition toLowerCaseChar :: "char \<Rightarrow> char" where
  "toLowerCaseChar c =
     (let n = (of_char c :: nat)
      in if (65 \<le> n \<and> n \<le> 90) \<or> (192 \<le> n \<and> n \<le> 222 \<and> n \<noteq> 215)
         then char_of (n + 32) else c)"

definition toLowerCase :: "string \<Rightarrow> string" where
  "toLowerCase s = map toLowerCaseChar s"

text \<open>\<^verbatim>\<open>s.split(c)\<close> for a one-character separator: never empty.\<close>

fun split :: "char \<Rightarrow> string \<Rightarrow> string list" where
  "split c [] = [[]]"
| "split c (x # xs) =
     (if x = c then [] # split c xs
      else (case split c xs of [] \<Rightarrow> [[x]] | y # ys \<Rightarrow> (x # y) # ys))"

text \<open>\<^verbatim>\<open>a.pop()\<close>: the last element, \<^verbatim>\<open>undefined\<close> on an empty array.\<close>

definition pop :: "'a list \<Rightarrow> 'a option" where
  "pop xs = (if xs = [] then None else Some (last xs))"

text \<open>\<^verbatim>\<open>x || ''\<close> for a string or \<^verbatim>\<open>undefined\<close>.\<close>

definition orEmpty :: "string option \<Rightarrow> string" where
  "orEmpty x = (case x of None \<Rightarrow> [] | Some s \<Rightarrow> s)"

definition startsWith :: "'a list \<Rightarrow> 'a list \<Rightarrow> bool" where
  "startsWith s p = (take (length p) s = p)"

text \<open>\<^verbatim>\<open>s.indexOf(p)\<close>: the first position where \<open>p\<close> occurs, \<open>-1\<close> when there is none.\<close>

fun indexOf :: "'a list \<Rightarrow> 'a list \<Rightarrow> int" where
  "indexOf [] p = (if p = [] then 0 else - 1)"
| "indexOf (x # xs) p =
     (if startsWith (x # xs) p then 0
      else (let r = indexOf xs p in if r = - 1 then - 1 else r + 1))"

text \<open>\<^verbatim>\<open>s.substring(i)\<close>: a negative start counts as 0.\<close>

definition substring :: "'a list \<Rightarrow> int \<Rightarrow> 'a list" where
  "substring s i = drop (nat i) s"

text \<open>The code units that \<^verbatim>\<open>trimStart\<close> removes: white space and line terminators.\<close>

definition isWhiteSpace :: "nat \<Rightarrow> bool" where
  "isWhiteSpace u =
     (u \<in> set [0x09, 0x0A, 0x0B, 0x0C, 0x0D, 0x20, 0xA0, 0x1680, 0x2028, 0x2029,
               0x202F, 0x205F, 0x3000, 0xFEFF]
      \<or> (0x2000 \<le> u \<and> u \<le> 0x200A))"

definition trimStart :: "units \<Rightarrow> units" where
  "trimStart s = dropWhile isWhiteSpace s"

text \<open>An ASCII literal of the source as decoded text.\<close>

definition lit :: "string \<Rightarrow> units" where
  "lit s = map of_char s"

subsection \<open>TextDecoder\<close>

text \<open>
  \<^verbatim>\<open>new TextDecoder().decode(b)\<close>: the UTF-8 decoder of the Encoding standard, not fatal
  (a malformed sequence gives U+FFFD and the offending byte is read again), with a
  leading byte order mark removed. \<open>utf8Lead\<close> is the step of the decoder when no
  sequence is open.
\<close>

datatype lead = Emit nat | Open nat nat nat nat | Malformed

definition utf8Lead :: "nat \<Rightarrow> lead" where
  "utf8Lead b =
     (if b \<le> 0x7F then Emit b
      else if 0xC2 \<le> b \<and> b \<le> 0xDF then Open (b mod 0x20) 1 0x80 0xBF
      else if 0xE0 \<le> b \<and> b \<le> 0xEF then
        Open (b mod 0x10) 2 (if b = 0xE0 then 0xA0 else 0x80) (if b = 0xED then 0x9F else 0xBF)
      else if 0xF0 \<le> b \<and> b \<le> 0xF4 then
        Open (b mod 0x08) 3 (if b = 0xF0 then 0x90 else 0x80) (if b = 0xF4 then 0x8F else 0xBF)
      else Malformed)"

text \<open>
  \<open>utf8Decode st bs\<close>: \<open>st\<close> is \<open>None\<close> between sequences, and otherwise the code point
  so far, the number of bytes still needed and the bounds for the next byte.
\<close>

fun utf8Decode :: "(nat \<times> nat \<times> nat \<times> nat) option \<Rightarrow> nat list \<Rightarrow> nat list" where
  "utf8Decode None [] = []"
| "utf8Decode (Some st) [] = [0xFFFD]"
| "utf8Decode None (b # bs) =
     (case utf8Lead b of
        Emit c \<Rightarrow> c # utf8Decode None bs
      | Open c n lo hi \<Rightarrow> utf8Decode (Some (c, n, lo, hi)) bs
      | Malformed \<Rightarrow> 0xFFFD # utf8Decode None bs)"
| "utf8Decode (Some (c, n, lo, hi)) (b # bs) =
     (if b < lo \<or> hi < b then
        0xFFFD # (case utf8Lead b of
                    Emit c' \<Rightarrow> c' # utf8Decode None bs
                  | Open c' n' lo' hi' \<Rightarrow> utf8Decode (Some (c', n', lo', hi')) bs
                  | Malformed \<Rightarrow> 0xFFFD # utf8Decode None bs)
      else if n = 1 then (c * 0x40 + b mod 0x40) # utf8Decode None bs
      else utf8Decode (Some (c * 0x40 + b mod 0x40, n - 1, 0x80, 0xBF)) bs)"

text \<open>A code point as UTF-16 code units.\<close>

definition utf16 :: "nat \<Rightarrow> nat list" where
  "utf16 c =
     (if c < 0x10000 then [c]
      else [0xD800 + (c - 0x10000) div 0x400, 0xDC00 + (c - 0x10000) mod 0x400])"

definition stripBOM :: "nat list \<Rightarrow> nat list" where
  "stripBOM cs = (case cs of [] \<Rightarrow> [] | c # cs' \<Rightarrow> if c = 0xFEFF then cs' else c # cs')"

definition decode :: "bytes \<Rightarrow> units" where
  "decode b = concat (map utf16 (stripBOM (utf8Decode None (map unat b))))"

subsection \<open>Headers\<close>

text \<open>
  A header list keeps its entries in order. Names compare without regard to ASCII case.
  \<^verbatim>\<open>h.get(k)\<close> joins the values stored under the name; \<^verbatim>\<open>h.set(k, v)\<close> overwrites the
  first entry of that name and removes the others, or appends.
\<close>

definition asciiLowerChar :: "char \<Rightarrow> char" where
  "asciiLowerChar c =
     (let n = (of_char c :: nat) in if 65 \<le> n \<and> n \<le> 90 then char_of (n + 32) else c)"

definition sameName :: "string \<Rightarrow> string \<Rightarrow> bool" where
  "sameName a b = (map asciiLowerChar a = map asciiLowerChar b)"

definition valuesOf :: "headers \<Rightarrow> string \<Rightarrow> string list" where
  "valuesOf hs k = map snd (filter (\<lambda>(n, v). sameName n k) hs)"

fun joinValues :: "string list \<Rightarrow> string" where
  "joinValues [] = []"
| "joinValues [v] = v"
| "joinValues (v # w # vs) = v @ '', '' @ joinValues (w # vs)"

definition hget :: "headers \<Rightarrow> string \<Rightarrow> string option" where
  "hget hs k = (if valuesOf hs k = [] then None else Some (joinValues (valuesOf hs k)))"

fun hset :: "string \<Rightarrow> string \<Rightarrow> headers \<Rightarrow> headers" where
  "hset k v [] = [(k, v)]"
| "hset k v ((n, w) # hs) =
     (if sameName n k then (n, v) # filter (\<lambda>(n', w'). \<not> sameName n' k) hs
      else (n, w) # hset k v hs)"

text \<open>
  The \<^verbatim>\<open>Headers\<close> object of a \<^verbatim>\<open>Response\<close> carries a guard. The constructor
  \<^verbatim>\<open>new Response\<close> gives the guard \<^verbatim>\<open>response\<close>; \<^verbatim>\<open>Response.redirect\<close>,
  \<^verbatim>\<open>Response.error\<close> and \<^verbatim>\<open>fetch\<close> give the guard \<^verbatim>\<open>immutable\<close>, under which
  \<^verbatim>\<open>set\<close> throws a \<^verbatim>\<open>TypeError\<close>.
\<close>

datatype guard = ImmutableGuard | ResponseGuard

definition headersSet :: "guard \<Rightarrow> string \<Rightarrow> string \<Rightarrow> headers \<Rightarrow> exn + headers" where
  "headersSet g k v hs =
     (if g = ImmutableGuard then Inl (Exn TypeError ''Headers are immutable.'')
      else Inr (hset k v hs))"

subsection \<open>The Response constructor\<close>

text \<open>
  \<^verbatim>\<open>new Response(body, { status, statusText, headers })\<close> as the Fetch standard and Deno
  define it. It throws a \<^verbatim>\<open>RangeError\<close> for a status that is neither 101 nor in
  200..599, a \<^verbatim>\<open>TypeError\<close> for a status text that is not a reason phrase, and a
  \<^verbatim>\<open>TypeError\<close> when a body is given with a null body status (101, 204, 205, 304). A
  string body without a \<^verbatim>\<open>Content-Type\<close> header gets the text one.
\<close>

definition nullBodyStatus :: "nat \<Rightarrow> bool" where
  "nullBodyStatus s = (s = 101 \<or> s = 204 \<or> s = 205 \<or> s = 304)"

definition reasonPhrase :: "string \<Rightarrow> bool" where
  "reasonPhrase s =
     list_all (\<lambda>c. let n = (of_char c :: nat)
                   in n = 9 \<or> n = 32 \<or> (33 \<le> n \<and> n \<le> 126) \<or> 128 \<le> n) s"

definition isString :: "'j body \<Rightarrow> bool" where
  "isString b = (case b of TextBody s \<Rightarrow> True | JsonBody d \<Rightarrow> True | _ \<Rightarrow> False)"

text \<open>A number in a template literal.\<close>

fun decimal :: "nat \<Rightarrow> string" where
  "decimal n =
     (if n < 10 then [char_of (48 + n)] else decimal (n div 10) @ [char_of (48 + n mod 10)])"

declare decimal.simps [simp del]

definition newResponse :: "'j body \<Rightarrow> nat \<Rightarrow> string \<Rightarrow> headers \<Rightarrow> exn + 'j response" where
  "newResponse b st stText hs =
     (if (st < 200 \<or> 599 < st) \<and> st \<noteq> 101 then
        Inl (Exn RangeError (''The status provided ('' @ decimal st
               @ '') is not equal to 101 and outside the range [200, 599]''))
      else if stText \<noteq> [] \<and> \<not> reasonPhrase stText then
        Inl (Exn TypeError (''Invalid status text: \"'' @ stText @ ''\"''))
      else if b \<noteq> NoBody \<and> nullBodyStatus st then
        Inl (Exn TypeError ''Response with null body status cannot have body'')
      else Inr \<lparr> status = st, statusText = stText,
                 headers = (if isString b \<and> hget hs ''Content-Type'' = None
                            then hs @ [(''Content-Type'', ''text/plain;charset=UTF-8'')] else hs),
                 body = b \<rparr>)"

section \<open>Requests and the outside world\<close>

text \<open>
  A form entry is a string or a \<^verbatim>\<open>File\<close> (its name and content). The source casts the
  result of \<^verbatim>\<open>formData.get\<close> without testing it, so each of the five fields can hold
  either kind, or be absent (\<^verbatim>\<open>null\<close>).
\<close>

datatype entry = StringEntry string | FileEntry string bytes

text \<open>
  What the handlers read of a request: the method, the path and the \<^verbatim>\<open>url\<close> query
  parameter of the parsed URL, and the result of \<^verbatim>\<open>await req.formData()\<close>, which throws
  when the body is not a form.
\<close>

record request =
  reqMethod :: string
  pathname :: string
  urlParam :: "string option"
  formData :: "exn + (string \<Rightarrow> entry option)"

text \<open>An invocation of \<^verbatim>\<open>fetch\<close>, and the response it resolves to.\<close>

record fetchCall =
  callUrl :: string
  callMethod :: string
  callHeaders :: headers
  callBody :: "bytes option"

record fetched =
  upStatus :: nat
  upStatusText :: string
  upHeaders :: headers
  upBody :: "bytes option"
  upText :: "exn + string"

text \<open>
  \<open>upBody\<close> is the \<^verbatim>\<open>body\<close> property (a stream or \<^verbatim>\<open>null\<close>), \<open>upText\<close> what
  \<^verbatim>\<open>await response.text()\<close> gives: the text, or the error thrown while reading.
\<close>

text \<open>\<^verbatim>\<open>!x\<close> is false for a non-empty string and for any object.\<close>

definition truthy :: "entry option \<Rightarrow> bool" where
  "truthy x = (case x of None \<Rightarrow> False | Some (StringEntry s) \<Rightarrow> s \<noteq> [] | Some (FileEntry n d) \<Rightarrow> True)"

text \<open>\<^verbatim>\<open>file.name\<close>: \<^verbatim>\<open>undefined\<close> on a string.\<close>

definition nameOf :: "entry \<Rightarrow> string option" where
  "nameOf x = (case x of StringEntry s \<Rightarrow> None | FileEntry n d \<Rightarrow> Some n)"

text \<open>\<^verbatim>\<open>await file.arrayBuffer()\<close>: a string has no such method.\<close>

definition arrayBuffer :: "entry \<Rightarrow> exn + bytes" where
  "arrayBuffer x =
     (case x of StringEntry s \<Rightarrow> Inl (Exn TypeError ''file.arrayBuffer is not a function'')
              | FileEntry n d \<Rightarrow> Inr d)"

text \<open>The string conversion of a template literal and of a header value.\<close>

definition toString :: "entry \<Rightarrow> string" where
  "toString x = (case x of StringEntry s \<Rightarrow> s | FileEntry n d \<Rightarrow> ''[object File]'')"

section \<open>The program\<close>

definition corsHeaders :: headers where
  "corsHeaders =
     [(''Access-Control-Allow-Origin'', ''*''),
      (''Access-Control-Allow-Headers'', ''Content-Type''),
      (''Access-Control-Allow-Methods'', ''POST, GET, OPTIONS'')]"

text \<open>The literal \<^verbatim>\<open>{ "Content-Type": "application/json", ...corsHeaders }\<close>.\<close>

definition jsonHeaders :: headers where
  "jsonHeaders = (''Content-Type'', ''application/json'') # corsHeaders"

text \<open>
  \<^verbatim>\<open>new Response(JSON.stringify(d), { status: st, headers: jsonHeaders })\<close>, the shape of
  every response the two handlers build themselves.
\<close>

definition jsonResponse :: "'j jsdata \<Rightarrow> nat \<Rightarrow> exn + 'j response" where
  "jsonResponse d st = newResponse (JsonBody d) st [] jsonHeaders"

text \<open>The loop \<^verbatim>\<open>for (const [key, value] of Object.entries(corsHeaders)) h.set(key, value)\<close>.\<close>

definition setCors :: "headers \<Rightarrow> headers" where
  "setCors hs = foldl (\<lambda>h (k, v). hset k v h) hs corsHeaders"

subsection \<open>handleAssetProxy\<close>

definition handleAssetProxy ::
  "(fetchCall \<Rightarrow> exn + fetched) \<Rightarrow> request \<Rightarrow> (exn + 'j response) \<times> fetchCall list" where
  "handleAssetProxy fetch req =
     (case urlParam req of
        None \<Rightarrow> (jsonResponse (ErrorObj ''No asset URL provided'') 400, [])
      | Some assetUrl \<Rightarrow>
          if assetUrl = [] then (jsonResponse (ErrorObj ''No asset URL provided'') 400, [])
          else if \<not> startsWith assetUrl ''https://assetdelivery.roblox.com/v1/asset/'' then
            (jsonResponse (ErrorObj ''Invalid asset URL'') 400, [])
          else
            let call = \<lparr> callUrl = assetUrl, callMethod = ''GET'',
                         callHeaders = [(''User-Agent'', ''Mozilla/5.0'')], callBody = None \<rparr>;
                attempt =
                  (case fetch call of
                     Inl e \<Rightarrow> Inl e
                   | Inr robloxResponse \<Rightarrow>
                       newResponse (case upBody robloxResponse of None \<Rightarrow> NoBody | Some b \<Rightarrow> StreamBody b)
                         (upStatus robloxResponse) (upStatusText robloxResponse)
                         (setCors (upHeaders robloxResponse)))
            in (case attempt of
                  Inr r \<Rightarrow> (Inr r, [call])
                | Inl e \<Rightarrow>
                    (jsonResponse (ErrorObj (''Failed to fetch asset: '' @ message e)) 502, [call])))"

subsection \<open>handlePublish\<close>

text \<open>
  Lines 97 to 104: the text that the root tag is looked for in. Lines 99, 100 and 105 of
  the source are read as the method calls \<^verbatim>\<open>head.startsWith('<?xml')\<close>,
  \<^verbatim>\<open>head.indexOf('?>')\<close> and \<^verbatim>\<open>head.startsWith('<roblox')\<close>.
\<close>

definition xmlHead :: "bytes \<Rightarrow> units" where
  "xmlHead fileData =
     (let head = trimStart (decode (take 2048 fileData))
      in if startsWith head (lit ''<?xml'') then
           (let idx = indexOf head (lit ''?>'')
            in if idx \<noteq> - 1 then trimStart (substring head (idx + 2)) else head)
         else head)"

text \<open>Line 76: the lower-cased last piece of the file name between dots.\<close>

definition extOf :: "string \<Rightarrow> string" where
  "extOf filename = orEmpty (map_option toLowerCase (pop (split (CHR ''.'') filename)))"

text \<open>Lines 112 to 114.\<close>

definition expected :: bytes where
  "expected = [0x3C, 0x72, 0x6F, 0x62, 0x6C, 0x6F, 0x78, 0x21, 0x89, 0xFF, 0x0D, 0x0A, 0x1A, 0x0A]"

definition mismatch :: "bytes \<Rightarrow> bool" where
  "mismatch fileData =
     (let sig = take 14 fileData
      in length sig \<noteq> length expected
         \<or> list_ex (\<lambda>i. sig ! i \<noteq> expected ! i) [0 ..< length sig])"

text \<open>
  Lines 123 to 138: the arguments of \<^verbatim>\<open>fetch\<close>. Lines 134 to 152: the call and the
  translation of its response; the second component of the result lists the calls of
  \<^verbatim>\<open>fetch\<close> that were made.
\<close>

definition upstreamCall :: "string \<Rightarrow> bytes \<Rightarrow> entry \<Rightarrow> entry \<Rightarrow> entry \<Rightarrow> entry \<Rightarrow> fetchCall" where
  "upstreamCall ext fileData apiKey universeId placeId versionType =
     (let robloxApiUrl = ''https://apis.roblox.com/universes/v1/'' @ toString universeId
            @ ''/places/'' @ toString placeId @ ''/versions?versionType='' @ toString versionType;
          contentType = (if ext = ''rbxlx'' then ''application/xml'' else ''application/octet-stream'');
          apiHeaders =
            [(''x-api-key'', toString apiKey),
             (''Content-Type'', contentType),
             (''Accept'', ''application/json, text/plain;q=0.9, */*;q=0.1''),
             (''User-Agent'', ''roblox-publisher/1.0'')]
      in \<lparr> callUrl = robloxApiUrl, callMethod = ''POST'',
           callHeaders = apiHeaders, callBody = Some fileData \<rparr>)"

definition publishUpstream ::
  "(fetchCall \<Rightarrow> exn + fetched) \<Rightarrow> (string \<Rightarrow> 'j option) \<Rightarrow> string \<Rightarrow> bytes
     \<Rightarrow> entry \<Rightarrow> entry \<Rightarrow> entry \<Rightarrow> entry \<Rightarrow> (exn + 'j response) \<times> fetchCall list" where
  "publishUpstream fetch jsonParse ext fileData apiKey universeId placeId versionType =
     (let call = upstreamCall ext fileData apiKey universeId placeId versionType
      in case fetch call of
           Inl e \<Rightarrow> (Inl e, [call])
         | Inr robloxResponse \<Rightarrow>
             (case upText robloxResponse of
                Inl e \<Rightarrow> (Inl e, [call])
              | Inr responseText \<Rightarrow>
                  let responseData =
                        (case jsonParse responseText of
                           Some v \<Rightarrow> Parsed v
                         | None \<Rightarrow> MessageObj (if responseText \<noteq> [] then responseText else []))
                  in (jsonResponse responseData (upStatus robloxResponse), [call])))"

text \<open>The body of the \<^verbatim>\<open>try\<close> block, lines 60 to 152: a response or a thrown value.\<close>

definition publishTry ::
  "(fetchCall \<Rightarrow> exn + fetched) \<Rightarrow> (string \<Rightarrow> 'j option) \<Rightarrow> request
     \<Rightarrow> (exn + 'j response) \<times> fetchCall list" where
  "publishTry fetch jsonParse req =
     (case formData req of
        Inl e \<Rightarrow> (Inl e, [])
      | Inr form \<Rightarrow>
          let file = form ''placeFile'';
              apiKey = form ''apiKey'';
              universeId = form ''universeId'';
              placeId = form ''placeId'';
              versionType = form ''versionType''
          in if \<not> truthy file \<or> \<not> truthy apiKey \<or> \<not> truthy universeId
                \<or> \<not> truthy placeId \<or> \<not> truthy versionType then
               (jsonResponse (ErrorObj ''Missing required form fields'') 400, [])
             else
               let filename = orEmpty (nameOf (the file));
                   ext = extOf filename;
                   allowedExtensions = [''rbxl'', ''rbxlx'']
               in if filename = [] \<or> ext \<notin> set allowedExtensions then
                    (jsonResponse (ErrorObj
                       ''No selected file or file type not allowed (.rbxl, .rbxlx only)'') 400, [])
                  else
                    (case arrayBuffer (the file) of
                       Inl e \<Rightarrow> (Inl e, [])
                     | Inr fileData \<Rightarrow>
                         if length fileData = 0 then
                           (jsonResponse (ErrorObj ''Uploaded file is empty'') 400, [])
                         else
                           let proceed =
                                 publishUpstream fetch jsonParse ext fileData
                                   (the apiKey) (the universeId) (the placeId) (the versionType)
                           in if ext = ''rbxlx'' then
                                (if \<not> startsWith (xmlHead fileData) (lit ''<roblox'') then
                                   (jsonResponse (ErrorObj
                                      ''RBXLX must start with <roblox (XML declaration allowed); got invalid XML header'')
                                      400, [])
                                 else proceed)
                              else
                                (if mismatch fileData then
                                   (jsonResponse (ErrorObj
                                      ''RBXL signature mismatch. Ensure you're sending a valid .rbxl file.'')
                                      400, [])
                                 else proceed)))"

text \<open>The \<^verbatim>\<open>catch\<close> block, lines 154 to 159, applied to the outcome of the \<^verbatim>\<open>try\<close> block.\<close>

definition catchServerError ::
  "(exn + 'j response) \<times> fetchCall list \<Rightarrow> (exn + 'j response) \<times> fetchCall list" where
  "catchServerError outcome =
     (case outcome of
        (Inr r, calls) \<Rightarrow> (Inr r, calls)
      | (Inl e, calls) \<Rightarrow> (jsonResponse (ErrorObj (''Server error: '' @ message e)) 500, calls))"

definition handlePublish ::
  "(fetchCall \<Rightarrow> exn + fetched) \<Rightarrow> (string \<Rightarrow> 'j option) \<Rightarrow> request
     \<Rightarrow> (exn + 'j response) \<times> fetchCall list" where
  "handlePublish fetch jsonParse req = catchServerError (publishTry fetch jsonParse req)"

subsection \<open>The dispatcher\<close>

text \<open>
  Lines 197 to 199 on a \<^verbatim>\<open>Response\<close>: the loop
  \<^verbatim>\<open>for (const [key, value] of Object.entries(corsHeaders)) response.headers.set(key, value)\<close>
  under the guard of the response's headers. It is outside any \<^verbatim>\<open>try\<close> block, so what
  \<^verbatim>\<open>set\<close> throws leaves the handler.
\<close>

fun setEach :: "guard \<Rightarrow> headers \<Rightarrow> headers \<Rightarrow> exn + headers" where
  "setEach g [] hs = Inr hs"
| "setEach g ((k, v) # kvs) hs =
     (case headersSet g k v hs of Inl e \<Rightarrow> Inl e | Inr hs' \<Rightarrow> setEach g kvs hs')"

text \<open>
  The function passed to \<^verbatim>\<open>serve\<close>. \<open>serveDir\<close> stands for the static file server: it
  throws, or returns a \<^verbatim>\<open>Response\<close>, given as the guard of its headers and its content
  (the file server answers some paths with \<^verbatim>\<open>Response.redirect\<close>). A response built in
  the \<^verbatim>\<open>catch\<close> block of line 188 has the guard \<^verbatim>\<open>response\<close>. The result is the response
  the handler returns, or the value it throws.
\<close>

definition serve ::
  "(fetchCall \<Rightarrow> exn + fetched) \<Rightarrow> (string \<Rightarrow> 'j option)
     \<Rightarrow> (request \<Rightarrow> exn + guard \<times> 'j response)
     \<Rightarrow> request \<Rightarrow> (exn + 'j response) \<times> fetchCall list" where
  "serve fetch jsonParse serveDir req =
     (if reqMethod req = ''OPTIONS'' then (newResponse NoBody 204 [] corsHeaders, [])
      else if pathname req = ''/publish'' \<and> reqMethod req = ''POST'' then
        handlePublish fetch jsonParse req
      else if pathname req = ''/asset'' then handleAssetProxy fetch req
      else
        let response =
              (case serveDir req of
                 Inr (g, r) \<Rightarrow> Inr (g, r)
               | Inl e \<Rightarrow>
                   (case (if isNotFound e then newResponse (TextBody ''Not Found'') 404 [] []
                          else newResponse (TextBody ''Internal Server Error'') 500 [] []) of
                      Inl e' \<Rightarrow> Inl e'
                    | Inr r \<Rightarrow> Inr (ResponseGuard, r)))
        in (case response of
              Inl e \<Rightarrow> (Inl e, [])
            | Inr (g, r) \<Rightarrow>
                (case setEach g corsHeaders (headers r) of
                   Inl e \<Rightarrow> (Inl e, [])
                 | Inr hs \<Rightarrow> (Inr (r\<lparr> headers := hs \<rparr>), []))))"

section \<open>Vocabulary of the properties\<close>

text \<open>The bytes of an ASCII string.\<close>

definition ascii :: "string \<Rightarrow> bytes" where
  "ascii s = map of_char s"

text \<open>
  \<open>caseVariant s t\<close>: \<open>s\<close> is the word \<open>t\<close> of lower-case ASCII letters with any of its
  letters in upper case.
\<close>

definition caseVariant :: "string \<Rightarrow> string \<Rightarrow> bool" where
  "caseVariant s t = list_all2 (\<lambda>c d. c = d \<or> (of_char c :: nat) + 32 = of_char d) s t"

text \<open>
  A form passes normalization and signature validation: the five fields are there, the
  file has a name with an accepted extension and is not empty, and its first bytes suit
  the extension. These are the guards of lines 68, 79, 88, 105 and 115, negated, the
  last one written as an equation of the first 14 bytes.
\<close>

definition passesValidation :: "(string \<Rightarrow> entry option) \<Rightarrow> string \<Rightarrow> bytes \<Rightarrow> bool" where
  "passesValidation form name fileData =
     (form ''placeFile'' = Some (FileEntry name fileData)
      \<and> truthy (form ''apiKey'') \<and> truthy (form ''universeId'')
      \<and> truthy (form ''placeId'') \<and> truthy (form ''versionType'')
      \<and> name \<noteq> [] \<and> extOf name \<in> {''rbxl'', ''rbxlx''}
      \<and> fileData \<noteq> []
      \<and> (if extOf name = ''rbxlx'' then startsWith (xmlHead fileData) (lit ''<roblox'')
         else take 14 fileData = expected))"

text \<open>The status of the response, when the handler returned one.\<close>

definition statusOf :: "(exn + 'j response) \<times> fetchCall list \<Rightarrow> nat option" where
  "statusOf outcome = (case fst outcome of Inl e \<Rightarrow> None | Inr r \<Rightarrow> Some (status r))"

text \<open>The three cross-origin headers, as \<^verbatim>\<open>headers.get\<close> reads them.\<close>

definition hasCors :: "headers \<Rightarrow> bool" where
  "hasCors hs =
     (hget hs ''Access-Control-Allow-Origin'' = Some ''*''
      \<and> hget hs ''Access-Control-Allow-Headers'' = Some ''Content-Type''
      \<and> hget hs ''Access-Control-Allow-Methods'' = Some ''POST, GET, OPTIONS'')"

subsection \<open>Sample inputs\<close>

text \<open>A form with all five fields, the file under the given name and content.\<close>

definition sampleForm :: "string \<Rightarrow> bytes \<Rightarrow> string \<Rightarrow> entry option" where
  "sampleForm name fileData k =
     (if k = ''placeFile'' then Some (FileEntry name fileData)
      else if k = ''apiKey'' then Some (StringEntry ''key'')
      else if k = ''universeId'' then Some (StringEntry ''11'')
      else if k = ''placeId'' then Some (StringEntry ''22'')
      else if k = ''versionType'' then Some (StringEntry ''Published'')
      else None)"

definition publishRequest :: "(string \<Rightarrow> entry option) \<Rightarrow> request" where
  "publishRequest form =
     \<lparr> reqMethod = ''POST'', pathname = ''/publish'', urlParam = None, formData = Inr form \<rparr>"

text \<open>A binary place file cut off after 13 bytes.\<close>

definition truncatedFile :: bytes where
  "truncatedFile = take 13 expected"

text \<open>
  Four XML files: a place, a place after a declaration, a file with the root
  \<^verbatim>\<open>robloxBAD\<close>, and a web page.
\<close>

definition xmlPlaceFile :: bytes where
  "xmlPlaceFile = ascii ''<roblox version=\"4\"></roblox>''"

definition declaredPlaceFile :: bytes where
  "declaredPlaceFile = ascii ''  <?xml version=\"1.0\"?>  <roblox></roblox>''"

definition badRootFile :: bytes where
  "badRootFile = ascii ''<robloxBAD></robloxBAD>''"

definition webPageFile :: bytes where
  "webPageFile = ascii ''<html></html>''"

text \<open>An upstream that answers every call with the given status and text.\<close>

definition upstreamReplies :: "nat \<Rightarrow> string \<Rightarrow> fetchCall \<Rightarrow> exn + fetched" where
  "upstreamReplies st t call =
     Inr \<lparr> upStatus = st, upStatusText = [], upHeaders = [],
           upBody = (if t = [] then None else Some (ascii t)), upText = Inr t \<rparr>"

text \<open>An upstream that cannot be reached: \<^verbatim>\<open>fetch\<close> throws.\<close>

definition upstreamUnreachable :: "fetchCall \<Rightarrow> exn + fetched" where
  "upstreamUnreachable call = Inl (Exn TypeError ''error sending request'')"

text \<open>
  \<^verbatim>\<open>JSON.parse\<close> on the texts of the samples: \<^verbatim>\<open>null\<close> parses, the text \<^verbatim>\<open>OK\<close> and the
  empty text do not.
\<close>

definition jsonParseSample :: "string \<Rightarrow> unit option" where
  "jsonParseSample t = (if t = ''null'' then Some () else None)"

text \<open>
  A request for a path that is not normalised, and the static file server's answer to
  it: \<^verbatim>\<open>Response.redirect\<close> to the normalised path, with status 301.
\<close>

definition doubleSlashRequest :: request where
  "doubleSlashRequest =
     \<lparr> reqMethod = ''GET'', pathname = ''//index.html'', urlParam = None,
       formData = Inl (Exn TypeError ''Missing content type'') \<rparr>"

definition serveDirRedirects :: "request \<Rightarrow> exn + guard \<times> unit response" where
  "serveDirRedirects req =
     Inr (ImmutableGuard,
          \<lparr> status = 301, statusText = [],
            headers = [(''Location'', ''http://localhost:5000/index.html'')], body = NoBody \<rparr>)"

section \<open>Auxiliary facts\<close>

subsection \<open>Responses and headers\<close>

lemma hget_jsonHeaders_ct: "hget jsonHeaders ''Content-Type'' = Some ''application/json''"
  by (simp add: hget_def valuesOf_def jsonHeaders_def corsHeaders_def sameName_def asciiLowerChar_def)

lemma jsonResponse_Inr:
  "200 \<le> st \<Longrightarrow> st \<le> 599 \<Longrightarrow> \<not> nullBodyStatus st \<Longrightarrow>
   jsonResponse d st = Inr \<lparr> status = st, statusText = [], headers = jsonHeaders, body = JsonBody d \<rparr>"
  by (simp add: jsonResponse_def newResponse_def hget_jsonHeaders_ct)

lemma jsonResponse_400:
  "jsonResponse d 400 = Inr \<lparr> status = 400, statusText = [], headers = jsonHeaders, body = JsonBody d \<rparr>"
  by (rule jsonResponse_Inr) (simp_all add: nullBodyStatus_def)

lemma jsonResponse_500:
  "jsonResponse d 500 = Inr \<lparr> status = 500, statusText = [], headers = jsonHeaders, body = JsonBody d \<rparr>"
  by (rule jsonResponse_Inr) (simp_all add: nullBodyStatus_def)

lemma jsonResponse_502:
  "jsonResponse d 502 = Inr \<lparr> status = 502, statusText = [], headers = jsonHeaders, body = JsonBody d \<rparr>"
  by (rule jsonResponse_Inr) (simp_all add: nullBodyStatus_def)

lemma jsonResponse_headers: "jsonResponse d st = Inr r \<Longrightarrow> headers r = jsonHeaders"
  by (auto simp: jsonResponse_def newResponse_def hget_jsonHeaders_ct split: if_splits)

lemma sameName_refl: "sameName k k"
  by (simp add: sameName_def)

lemma valuesOf_hset_same: "sameName k k' \<Longrightarrow> valuesOf (hset k v hs) k' = [v]"
proof (induction hs)
  case Nil
  then show ?case by (simp add: valuesOf_def)
next
  case (Cons p hs)
  obtain n w where p: "p = (n, w)" by (cases p)
  show ?case
  proof (cases "sameName n k")
    case True
    with Cons.prems have nk': "sameName n k'" by (simp add: sameName_def)
    have "filter (\<lambda>(a, b). sameName a k') (filter (\<lambda>(n', w'). \<not> sameName n' k) hs) = []"
      using Cons.prems by (auto simp: filter_empty_conv sameName_def)
    with True nk' show ?thesis by (simp add: p valuesOf_def)
  next
    case False
    with Cons.prems have "\<not> sameName n k'" by (auto simp: sameName_def)
    with False Cons show ?thesis by (simp add: p valuesOf_def)
  qed
qed

lemma valuesOf_hset_other: "\<not> sameName k k' \<Longrightarrow> valuesOf (hset k v hs) k' = valuesOf hs k'"
proof (induction hs)
  case Nil
  then show ?case by (simp add: valuesOf_def)
next
  case (Cons p hs)
  obtain n w where p: "p = (n, w)" by (cases p)
  show ?case
  proof (cases "sameName n k")
    case True
    have "filter (\<lambda>(a, b). sameName a k') (filter (\<lambda>(n', w'). \<not> sameName n' k) hs)
          = filter (\<lambda>(a, b). sameName a k') hs"
      using Cons.prems by (auto simp: sameName_def intro!: filter_cong)
    moreover from True Cons.prems have "\<not> sameName n k'" by (auto simp: sameName_def)
    ultimately show ?thesis using True by (simp add: p valuesOf_def)
  next
    case False
    with Cons show ?thesis by (simp add: p valuesOf_def)
  qed
qed

lemma hget_hset_same: "hget (hset k v hs) k = Some v"
  by (simp add: hget_def valuesOf_hset_same sameName_refl)

lemma hget_hset_other: "\<not> sameName k k' \<Longrightarrow> hget (hset k v hs) k' = hget hs k'"
  by (simp add: hget_def valuesOf_hset_other)

lemma hget_setCors:
  "hget (setCors hs) ''Access-Control-Allow-Origin'' = Some ''*''"
  "hget (setCors hs) ''Access-Control-Allow-Headers'' = Some ''Content-Type''"
  "hget (setCors hs) ''Access-Control-Allow-Methods'' = Some ''POST, GET, OPTIONS''"
  by (simp_all add: setCors_def corsHeaders_def hget_hset_same hget_hset_other sameName_def asciiLowerChar_def)

lemma hget_corsHeaders:
  "hget corsHeaders ''Access-Control-Allow-Origin'' = Some ''*''"
  "hget corsHeaders ''Access-Control-Allow-Headers'' = Some ''Content-Type''"
  "hget corsHeaders ''Access-Control-Allow-Methods'' = Some ''POST, GET, OPTIONS''"
  by (simp_all add: corsHeaders_def hget_def valuesOf_def sameName_def asciiLowerChar_def)

lemma hget_jsonHeaders:
  "hget jsonHeaders ''Access-Control-Allow-Origin'' = Some ''*''"
  "hget jsonHeaders ''Access-Control-Allow-Headers'' = Some ''Content-Type''"
  "hget jsonHeaders ''Access-Control-Allow-Methods'' = Some ''POST, GET, OPTIONS''"
  by (simp_all add: jsonHeaders_def corsHeaders_def hget_def valuesOf_def sameName_def asciiLowerChar_def)

subsection \<open>The publish handler\<close>

lemma length_expected: "length expected = 14"
  by (simp add: expected_def)

lemma mismatch_iff: "mismatch fileData \<longleftrightarrow> take 14 fileData \<noteq> expected"
proof (cases "length (take 14 fileData) = 14")
  case True
  have "list_ex (\<lambda>i. take 14 fileData ! i \<noteq> expected ! i) [0 ..< 14]
        \<longleftrightarrow> take 14 fileData \<noteq> expected"
    using True by (auto simp: list_ex_iff list_eq_iff_nth_eq length_expected)
  with True show ?thesis by (simp add: mismatch_def Let_def length_expected)
next
  case False
  then have "take 14 fileData \<noteq> expected" using length_expected by metis
  with False show ?thesis by (simp add: mismatch_def Let_def length_expected)
qed

lemma snd_publishUpstream:
  "snd (publishUpstream fetch jsonParse ext fileData a u p v) = [upstreamCall ext fileData a u p v]"
  by (simp add: publishUpstream_def Let_def split: sum.splits)

lemma publishTry_missing:
  assumes "formData req = Inr form"
    and "\<not> truthy (form ''placeFile'') \<or> \<not> truthy (form ''apiKey'') \<or> \<not> truthy (form ''universeId'')
         \<or> \<not> truthy (form ''placeId'') \<or> \<not> truthy (form ''versionType'')"
  shows "publishTry fetch jsonParse req = (jsonResponse (ErrorObj ''Missing required form fields'') 400, [])"
  using assms by (simp add: publishTry_def Let_def)

lemma publishTry_present:
  assumes "formData req = Inr form"
    and "form ''placeFile'' = Some (FileEntry name fileData)"
    and "truthy (form ''apiKey'')" and "truthy (form ''universeId'')"
    and "truthy (form ''placeId'')" and "truthy (form ''versionType'')"
  shows "publishTry fetch jsonParse req =
     (if name = [] \<or> extOf name \<notin> {''rbxl'', ''rbxlx''} then
        (jsonResponse (ErrorObj ''No selected file or file type not allowed (.rbxl, .rbxlx only)'') 400, [])
      else if fileData = [] then (jsonResponse (ErrorObj ''Uploaded file is empty'') 400, [])
      else if extOf name = ''rbxlx'' \<and> \<not> startsWith (xmlHead fileData) (lit ''<roblox'') then
        (jsonResponse (ErrorObj
           ''RBXLX must start with <roblox (XML declaration allowed); got invalid XML header'') 400, [])
      else if extOf name \<noteq> ''rbxlx'' \<and> mismatch fileData then
        (jsonResponse (ErrorObj
           ''RBXL signature mismatch. Ensure you're sending a valid .rbxl file.'') 400, [])
      else publishUpstream fetch jsonParse (extOf name) fileData
             (the (form ''apiKey'')) (the (form ''universeId''))
             (the (form ''placeId'')) (the (form ''versionType'')))"
  using assms
  by (simp add: publishTry_def Let_def truthy_def nameOf_def orEmpty_def arrayBuffer_def)

lemma publishTry_string_file:
  assumes "formData req = Inr form"
    and "form ''placeFile'' = Some (StringEntry s)"
  shows "publishTry fetch jsonParse req =
     (if s = [] \<or> \<not> truthy (form ''apiKey'') \<or> \<not> truthy (form ''universeId'')
         \<or> \<not> truthy (form ''placeId'') \<or> \<not> truthy (form ''versionType'')
      then (jsonResponse (ErrorObj ''Missing required form fields'') 400, [])
      else (jsonResponse (ErrorObj ''No selected file or file type not allowed (.rbxl, .rbxlx only)'') 400, []))"
  using assms
  by (simp add: publishTry_def Let_def truthy_def nameOf_def orEmpty_def)

lemma handlePublish_of_400:
  "publishTry fetch jsonParse req = (jsonResponse d 400, []) \<Longrightarrow>
   handlePublish fetch jsonParse req =
     (Inr \<lparr> status = 400, statusText = [], headers = jsonHeaders, body = JsonBody d \<rparr>, [])"
  by (simp add: handlePublish_def catchServerError_def jsonResponse_400)

subsection \<open>File names\<close>

lemma split_nonempty: "split c s \<noteq> []"
  by (induction s) (auto split: list.splits)

lemma split_no_separator: "c \<notin> set s \<Longrightarrow> split c s = [s]"
  by (induction s) auto

lemma split_append_separator:
  "c \<notin> set s \<Longrightarrow> split c (b @ c # s) = split c b @ [s]"
proof (induction b)
  case Nil
  then show ?case by (simp add: split_no_separator)
next
  case (Cons x b)
  then show ?case
    using split_nonempty [of c b] by (cases "split c b") auto
qed

lemma extOf_plain: "CHR ''.'' \<notin> set s \<Longrightarrow> extOf s = toLowerCase s"
  by (simp add: extOf_def split_no_separator pop_def orEmpty_def)

lemma extOf_dotted: "CHR ''.'' \<notin> set s \<Longrightarrow> extOf (b @ CHR ''.'' # s) = toLowerCase s"
  by (simp add: extOf_def split_append_separator pop_def orEmpty_def)

lemma extOf_last_piece:
  assumes "CHR ''.'' \<notin> set s" and "base = [] \<or> last base = CHR ''.''"
  shows "extOf (base @ s) = toLowerCase s"
proof (cases "base = []")
  case True
  with assms(1) show ?thesis by (simp add: extOf_plain)
next
  case False
  with assms(2) have "base = butlast base @ [CHR ''.'']"
    by (metis append_butlast_last_id)
  then obtain b where "base = b @ [CHR ''.'']" by blast
  then have "extOf (base @ s) = extOf (b @ CHR ''.'' # s)" by simp
  also have "\<dots> = toLowerCase s" using assms(1) by (rule extOf_dotted)
  finally show ?thesis .
qed

lemma lower_of_variant:
  assumes "c = d \<or> (of_char c :: nat) + 32 = of_char d"
    and "97 \<le> (of_char d :: nat)" and "(of_char d :: nat) \<le> 122"
  shows "toLowerCaseChar c = d \<and> c \<noteq> CHR ''.''"
proof (cases "c = d")
  case True
  with assms(2,3) show ?thesis by (auto simp: toLowerCaseChar_def Let_def)
next
  case False
  with assms(1) have e: "(of_char c :: nat) + 32 = of_char d" by simp
  then have "char_of ((of_char c :: nat) + 32) = d" by simp
  moreover from e assms(2,3) have "65 \<le> (of_char c :: nat) \<and> (of_char c :: nat) \<le> 90" by arith
  ultimately show ?thesis by (auto simp: toLowerCaseChar_def Let_def)
qed

lemma caseVariant_lower:
  assumes "caseVariant s t" and "\<forall>d \<in> set t. 97 \<le> (of_char d :: nat) \<and> (of_char d :: nat) \<le> 122"
  shows "toLowerCase s = t \<and> CHR ''.'' \<notin> set s"
  using assms unfolding caseVariant_def toLowerCase_def
proof (induction s t rule: list_all2_induct)
  case Nil
  then show ?case by simp
next
  case (Cons c s d t)
  from Cons.hyps(1) Cons.prems have "toLowerCaseChar c = d \<and> c \<noteq> CHR ''.''"
    by (intro lower_of_variant) auto
  with Cons show ?case by auto
qed

lemma caseVariant_rbxl: "caseVariant s ''rbxl'' \<Longrightarrow> toLowerCase s = ''rbxl'' \<and> CHR ''.'' \<notin> set s"
  by (rule caseVariant_lower) simp_all

lemma caseVariant_rbxlx: "caseVariant s ''rbxlx'' \<Longrightarrow> toLowerCase s = ''rbxlx'' \<and> CHR ''.'' \<notin> set s"
  by (rule caseVariant_lower) simp_all

lemma caseVariant_length: "caseVariant s t \<Longrightarrow> length s = length t"
  by (simp add: caseVariant_def list_all2_lengthD)

subsection \<open>The handler case by case\<close>

lemma handlePublish_missing:
  assumes "formData req = Inr form"
    and "\<not> truthy (form ''placeFile'') \<or> \<not> truthy (form ''apiKey'') \<or> \<not> truthy (form ''universeId'')
         \<or> \<not> truthy (form ''placeId'') \<or> \<not> truthy (form ''versionType'')"
  shows "handlePublish fetch jsonParse req =
           (Inr \<lparr> status = 400, statusText = [], headers = jsonHeaders,
                  body = JsonBody (ErrorObj ''Missing required form fields'') \<rparr>, [])"
  using assms by (intro handlePublish_of_400 publishTry_missing)

lemma handlePublish_present:
  assumes "formData req = Inr form"
    and "form ''placeFile'' = Some (FileEntry name fileData)"
    and "truthy (form ''apiKey'')" and "truthy (form ''universeId'')"
    and "truthy (form ''placeId'')" and "truthy (form ''versionType'')"
  shows "handlePublish fetch jsonParse req =
     (if name = [] \<or> extOf name \<notin> {''rbxl'', ''rbxlx''} then
        (Inr \<lparr> status = 400, statusText = [], headers = jsonHeaders,
               body = JsonBody (ErrorObj
                 ''No selected file or file type not allowed (.rbxl, .rbxlx only)'') \<rparr>, [])
      else if fileData = [] then
        (Inr \<lparr> status = 400, statusText = [], headers = jsonHeaders,
               body = JsonBody (ErrorObj ''Uploaded file is empty'') \<rparr>, [])
      else if extOf name = ''rbxlx'' \<and> \<not> startsWith (xmlHead fileData) (lit ''<roblox'') then
        (Inr \<lparr> status = 400, statusText = [], headers = jsonHeaders,
               body = JsonBody (ErrorObj
                 ''RBXLX must start with <roblox (XML declaration allowed); got invalid XML header'') \<rparr>, [])
      else if extOf name \<noteq> ''rbxlx'' \<and> take 14 fileData \<noteq> expected then
        (Inr \<lparr> status = 400, statusText = [], headers = jsonHeaders,
               body = JsonBody (ErrorObj
                 ''RBXL signature mismatch. Ensure you're sending a valid .rbxl file.'') \<rparr>, [])
      else catchServerError (publishUpstream fetch jsonParse (extOf name) fileData
             (the (form ''apiKey'')) (the (form ''universeId''))
             (the (form ''placeId'')) (the (form ''versionType''))))"
  unfolding handlePublish_def publishTry_present [OF assms] mismatch_iff
  by (simp add: catchServerError_def jsonResponse_400)

lemma snd_catchServerError: "snd (catchServerError outcome) = snd outcome"
  by (cases outcome) (simp add: catchServerError_def split: sum.splits)

lemma catchServerError_Inr: "catchServerError (Inr r, calls) = (Inr r, calls)"
  by (simp add: catchServerError_def)

lemma catchServerError_Inl:
  "catchServerError (Inl e, calls) =
     (Inr \<lparr> status = 500, statusText = [], headers = jsonHeaders,
            body = JsonBody (ErrorObj (''Server error: '' @ message e)) \<rparr>, calls)"
  by (simp add: catchServerError_def jsonResponse_500)

lemma short_is_mismatch: "length fileData < 14 \<Longrightarrow> take 14 fileData \<noteq> expected"
  using length_expected by (metis length_take min.absorb1 less_imp_le_nat nat_neq_iff)

lemma contentType_upstreamCall:
  "hget (callHeaders (upstreamCall ext fileData a u p v)) ''Content-Type'' =
     Some (if ext = ''rbxlx'' then ''application/xml'' else ''application/octet-stream'')"
  by (simp add: upstreamCall_def Let_def hget_def valuesOf_def sameName_def asciiLowerChar_def)

lemma upstreamCall_fields:
  "callMethod (upstreamCall ext fileData a u p v) = ''POST''"
  "callBody (upstreamCall ext fileData a u p v) = Some fileData"
  by (simp_all add: upstreamCall_def Let_def)

lemma extOf_empty: "extOf [] = []"
  by (simp add: extOf_def pop_def orEmpty_def toLowerCase_def)

subsection \<open>Decoding an XML header\<close>

lemma utf8Decode_ascii_prefix:
  "\<forall>b \<in> set p. b < 128 \<Longrightarrow> utf8Decode None (p @ bs) = p @ utf8Decode None bs"
  by (induction p) (simp_all add: utf8Lead_def)

lemma unat_ascii_root: "map unat (ascii ''<roblox'') = lit ''<roblox''"
  by (simp add: ascii_def lit_def)

lemma lit_root: "lit ''<roblox'' = [60, 114, 111, 98, 108, 111, 120]"
  by (simp add: lit_def)

lemma decode_root_prefix: "\<exists>rest. decode (ascii ''<roblox'' @ bs) = lit ''<roblox'' @ rest"
proof -
  have "utf8Decode None (map unat (ascii ''<roblox'' @ bs))
        = lit ''<roblox'' @ utf8Decode None (map unat bs)"
    unfolding map_append unat_ascii_root
    by (rule utf8Decode_ascii_prefix) (simp add: lit_root)
  then show ?thesis
    by (simp add: decode_def lit_root stripBOM_def utf16_def)
qed

lemma xmlHead_root_prefix:
  assumes "startsWith fileData (ascii ''<roblox'')"
  shows "startsWith (xmlHead fileData) (lit ''<roblox'')"
proof -
  define p where "p = ascii ''<roblox''"
  have len: "length p = 7" by (simp add: p_def ascii_def)
  from assms have "take (length p) fileData = p"
    by (simp add: startsWith_def p_def)
  then have "fileData = p @ drop (length p) fileData"
    by (metis append_take_drop_id)
  then obtain r where "fileData = p @ r" ..
  then have "take 2048 fileData = p @ take 2041 r"
    by (simp add: len)
  then obtain rest where d: "decode (take 2048 fileData) = lit ''<roblox'' @ rest"
    using decode_root_prefix unfolding p_def by metis
  have "trimStart (lit ''<roblox'' @ rest) = lit ''<roblox'' @ rest"
    by (simp add: trimStart_def lit_root isWhiteSpace_def)
  moreover have "\<not> startsWith (lit ''<roblox'' @ rest) (lit ''<?xml'')"
    by (simp add: startsWith_def lit_def)
  moreover have "startsWith (lit ''<roblox'' @ rest) (lit ''<roblox'')"
    by (simp add: startsWith_def)
  ultimately show ?thesis by (simp add: xmlHead_def d Let_def)
qed

subsection \<open>Validated requests and the samples\<close>

lemma handlePublish_valid:
  assumes "formData req = Inr form" and "passesValidation form name fileData"
  shows "handlePublish fetch jsonParse req =
           catchServerError (publishUpstream fetch jsonParse (extOf name) fileData
             (the (form ''apiKey'')) (the (form ''universeId''))
             (the (form ''placeId'')) (the (form ''versionType'')))"
proof -
  from assms(2) have p: "form ''placeFile'' = Some (FileEntry name fileData)"
    and t: "truthy (form ''apiKey'')" "truthy (form ''universeId'')"
      "truthy (form ''placeId'')" "truthy (form ''versionType'')"
    by (simp_all add: passesValidation_def)
  from assms(2) have "name \<noteq> []" "extOf name \<in> {''rbxl'', ''rbxlx''}" "fileData \<noteq> []"
    "extOf name = ''rbxlx'' \<longrightarrow> startsWith (xmlHead fileData) (lit ''<roblox'')"
    "extOf name \<noteq> ''rbxlx'' \<longrightarrow> take 14 fileData = expected"
    by (simp_all add: passesValidation_def)
  then show ?thesis
    by (auto simp add: handlePublish_present [OF assms(1) p t])
qed

lemma handlePublish_thrown_form:
  "formData req = Inl e \<Longrightarrow>
   handlePublish fetch jsonParse req =
     (Inr \<lparr> status = 500, statusText = [], headers = jsonHeaders,
            body = JsonBody (ErrorObj (''Server error: '' @ message e)) \<rparr>, [])"
  by (simp add: handlePublish_def publishTry_def catchServerError_Inl)

lemma handlePublish_string_file:
  assumes "formData req = Inr form" and "form ''placeFile'' = Some (StringEntry s)"
  shows "snd (handlePublish fetch jsonParse req) = []"
  by (simp add: handlePublish_def snd_catchServerError publishTry_string_file [OF assms])

lemma calls_imp_valid:
  assumes "formData req = Inr form" and "snd (handlePublish fetch jsonParse req) \<noteq> []"
  shows "\<exists>name fileData. passesValidation form name fileData"
proof (cases "form ''placeFile''")
  case None
  then have "\<not> truthy (form ''placeFile'')" by (simp add: truthy_def)
  with assms show ?thesis
    using handlePublish_missing [OF assms(1), of fetch jsonParse] by simp
next
  case (Some x)
  show ?thesis
  proof (cases x)
    case (StringEntry s)
    with Some assms show ?thesis
      using handlePublish_string_file [OF assms(1), of s fetch jsonParse] by simp
  next
    case (FileEntry name fileData)
    with Some have p: "form ''placeFile'' = Some (FileEntry name fileData)" by simp
    show ?thesis
    proof (cases "truthy (form ''apiKey'') \<and> truthy (form ''universeId'')
                \<and> truthy (form ''placeId'') \<and> truthy (form ''versionType'')")
      case False
      with assms show ?thesis
        using handlePublish_missing [OF assms(1), of fetch jsonParse] by auto
    next
      case True
      then have t: "truthy (form ''apiKey'')" "truthy (form ''universeId'')"
        "truthy (form ''placeId'')" "truthy (form ''versionType'')" by simp_all
      from assms(2) have "passesValidation form name fileData"
        unfolding handlePublish_present [OF assms(1) p t] passesValidation_def
        using p t by (auto split: if_splits)
      then show ?thesis by blast
    qed
  qed
qed

lemma publishUpstream_thrown:
  "fetch (upstreamCall ext fileData a u p v) = Inl e \<Longrightarrow>
   publishUpstream fetch jsonParse ext fileData a u p v = (Inl e, [upstreamCall ext fileData a u p v])"
  by (simp add: publishUpstream_def Let_def)

lemma publishUpstream_answered:
  "fetch (upstreamCall ext fileData a u p v) = Inr up \<Longrightarrow> upText up = Inr t \<Longrightarrow>
   publishUpstream fetch jsonParse ext fileData a u p v =
     (jsonResponse (case jsonParse t of Some j \<Rightarrow> Parsed j | None \<Rightarrow> MessageObj t) (upStatus up),
      [upstreamCall ext fileData a u p v])"
  by (simp add: publishUpstream_def Let_def split: option.splits)

lemma sample_formData: "formData (publishRequest form) = Inr form"
  by (simp add: publishRequest_def)

lemma sample_fields:
  "sampleForm name fileData ''placeFile'' = Some (FileEntry name fileData)"
  "truthy (sampleForm name fileData ''apiKey'')"
  "truthy (sampleForm name fileData ''universeId'')"
  "truthy (sampleForm name fileData ''placeId'')"
  "truthy (sampleForm name fileData ''versionType'')"
  "the (sampleForm name fileData ''apiKey'') = StringEntry ''key''"
  "the (sampleForm name fileData ''universeId'') = StringEntry ''11''"
  "the (sampleForm name fileData ''placeId'') = StringEntry ''22''"
  "the (sampleForm name fileData ''versionType'') = StringEntry ''Published''"
  by (simp_all add: sampleForm_def truthy_def)

lemma sample_extensions:
  "extOf ''place.rbxl'' = ''rbxl''"
  "extOf ''place.rbxlx'' = ''rbxlx''"
  "extOf ''My.Place.RbXlX'' = ''rbxlx''"
  by (simp_all add: extOf_def pop_def orEmpty_def toLowerCase_def toLowerCaseChar_def char_of_eq_iff)

lemma sample_upstreamCall:
  "upstreamCall ext fileData (StringEntry ''key'') (StringEntry ''11'') (StringEntry ''22'')
     (StringEntry ''Published'') =
   \<lparr> callUrl = ''https://apis.roblox.com/universes/v1/11/places/22/versions?versionType=Published'',
     callMethod = ''POST'',
     callHeaders =
       [(''x-api-key'', ''key''),
        (''Content-Type'', if ext = ''rbxlx'' then ''application/xml'' else ''application/octet-stream''),
        (''Accept'', ''application/json, text/plain;q=0.9, */*;q=0.1''),
        (''User-Agent'', ''roblox-publisher/1.0'')],
     callBody = Some fileData \<rparr>"
  by (simp add: upstreamCall_def Let_def toString_def)

lemma sample_files:
  "expected \<noteq> []" "take 14 expected = expected"
  "xmlPlaceFile \<noteq> []" "startsWith xmlPlaceFile (ascii ''<roblox'')"
  "badRootFile \<noteq> []" "startsWith badRootFile (ascii ''<roblox'')"
  "webPageFile \<noteq> []"
  by (simp_all add: expected_def xmlPlaceFile_def badRootFile_def webPageFile_def ascii_def startsWith_def)

lemma webPage_head: "\<not> startsWith (xmlHead webPageFile) (lit ''<roblox'')"
  by (simp add: webPageFile_def ascii_def xmlHead_def decode_def utf8Lead_def stripBOM_def utf16_def
        trimStart_def isWhiteSpace_def startsWith_def lit_def Let_def)

lemma declaredPlace_head: "xmlHead declaredPlaceFile = lit ''<roblox></roblox>''"
  by (simp add: declaredPlaceFile_def ascii_def xmlHead_def decode_def utf8Lead_def stripBOM_def
        utf16_def trimStart_def isWhiteSpace_def startsWith_def lit_def substring_def Let_def)

lemma sample_answer_OK:
  "catchServerError (publishUpstream (upstreamReplies 200 ''OK'') jsonParseSample ext fileData
     (StringEntry ''key'') (StringEntry ''11'') (StringEntry ''22'') (StringEntry ''Published'')) =
   (Inr \<lparr> status = 200, statusText = [], headers = jsonHeaders,
          body = JsonBody (MessageObj ''OK'') \<rparr>,
    [upstreamCall ext fileData (StringEntry ''key'') (StringEntry ''11'')
       (StringEntry ''22'') (StringEntry ''Published'')])"
  by (simp add: publishUpstream_answered [where up = "\<lparr> upStatus = 200, upStatusText = [],
          upHeaders = [], upBody = Some (ascii ''OK''), upText = Inr ''OK'' \<rparr>" and t = "''OK''"]
        upstreamReplies_def jsonParseSample_def jsonResponse_Inr nullBodyStatus_def
        catchServerError_Inr)

lemma sample_valid:
  "passesValidation (sampleForm ''place.rbxl'' expected) ''place.rbxl'' expected"
  "passesValidation (sampleForm ''place.rbxlx'' xmlPlaceFile) ''place.rbxlx'' xmlPlaceFile"
  "passesValidation (sampleForm ''place.rbxlx'' badRootFile) ''place.rbxlx'' badRootFile"
  by (simp_all add: passesValidation_def sample_fields sample_extensions sample_files
        xmlHead_root_prefix)

subsection \<open>Cross-origin headers\<close>

lemma hasCors_simps: "hasCors corsHeaders" "hasCors jsonHeaders" "hasCors (setCors hs)"
  by (simp_all add: hasCors_def hget_corsHeaders hget_jsonHeaders hget_setCors)

lemma publishUpstream_headers:
  "fst (publishUpstream fetch jsonParse ext fileData a u p v) = Inr r \<Longrightarrow> headers r = jsonHeaders"
  by (auto simp: publishUpstream_def Let_def dest: jsonResponse_headers split: sum.splits)

lemma publishTry_headers:
  "fst (publishTry fetch jsonParse req) = Inr r \<Longrightarrow> headers r = jsonHeaders"
  by (auto simp: publishTry_def Let_def jsonResponse_400
      dest: publishUpstream_headers split: sum.splits if_splits)

lemma handlePublish_returns:
  "\<exists>r. fst (handlePublish fetch jsonParse req) = Inr r \<and> headers r = jsonHeaders"
proof (cases "publishTry fetch jsonParse req")
  case (Pair outcome calls)
  show ?thesis
  proof (cases outcome)
    case (Inl e)
    with Pair show ?thesis by (simp add: handlePublish_def catchServerError_Inl)
  next
    case (Inr r)
    with Pair have "headers r = jsonHeaders" using publishTry_headers [of fetch jsonParse req r] by simp
    with Pair Inr show ?thesis by (simp add: handlePublish_def catchServerError_Inr)
  qed
qed

lemma newResponse_stream_headers:
  "newResponse NoBody st stText hs = Inr r \<Longrightarrow> headers r = hs"
  "newResponse (StreamBody x) st stText hs = Inr r \<Longrightarrow> headers r = hs"
  by (auto simp: newResponse_def isString_def split: if_splits)

lemma handleAssetProxy_returns:
  "\<exists>r. fst (handleAssetProxy fetch req) = Inr r \<and> hasCors (headers r)"
proof -
  have "fst (handleAssetProxy fetch req) = Inr r \<Longrightarrow> hasCors (headers r)" for r :: "'a response"
    by (auto simp: handleAssetProxy_def Let_def jsonResponse_400 jsonResponse_502 hasCors_simps
        dest!: newResponse_stream_headers split: option.splits if_splits sum.splits)
  moreover have "\<exists>r :: 'a response. fst (handleAssetProxy fetch req) = Inr r"
    by (auto simp: handleAssetProxy_def Let_def jsonResponse_400 jsonResponse_502
        split: option.splits sum.splits)
  ultimately show ?thesis by blast
qed

lemma newResponse_text:
  "st = 404 \<or> st = 500 \<Longrightarrow>
   newResponse (TextBody t) st [] [] =
     Inr \<lparr> status = st, statusText = [],
            headers = [(''Content-Type'', ''text/plain;charset=UTF-8'')], body = TextBody t \<rparr>"
  by (auto simp: newResponse_def nullBodyStatus_def isString_def hget_def valuesOf_def)

lemma newResponse_preflight:
  "newResponse NoBody 204 [] corsHeaders =
     Inr \<lparr> status = 204, statusText = [], headers = corsHeaders, body = NoBody \<rparr>"
  by (simp add: newResponse_def isString_def)

subsection \<open>Further facts about the handler\<close>

text \<open>
  Two facts beside the claims. An extension outside the accepted pair is rejected, and an
  upstream answer whose status the \<^verbatim>\<open>Response\<close> constructor accepts with a body is
  translated with its status unchanged.
\<close>

lemma unsupported_extension_rejected:
  assumes "formData req = Inr form"
    and "form ''placeFile'' = Some (FileEntry name fileData)"
    and "truthy (form ''apiKey'')" and "truthy (form ''universeId'')"
    and "truthy (form ''placeId'')" and "truthy (form ''versionType'')"
    and "extOf name \<notin> {''rbxl'', ''rbxlx''}"
  shows "handlePublish fetch jsonParse req =
           (Inr \<lparr> status = 400, statusText = [], headers = jsonHeaders,
                  body = JsonBody (ErrorObj
                    ''No selected file or file type not allowed (.rbxl, .rbxlx only)'') \<rparr>, [])"
  using assms(7) by (simp add: handlePublish_present [OF assms(1-6)])

lemma upstream_answer_translated:
  assumes "formData req = Inr form"
    and "passesValidation form name fileData"
    and "fetch (upstreamCall (extOf name) fileData (the (form ''apiKey'')) (the (form ''universeId''))
           (the (form ''placeId'')) (the (form ''versionType''))) = Inr up"
    and "upText up = Inr t"
    and "200 \<le> upStatus up" and "upStatus up \<le> 599" and "\<not> nullBodyStatus (upStatus up)"
  shows "handlePublish fetch jsonParse req =
           (Inr \<lparr> status = upStatus up, statusText = [], headers = jsonHeaders,
                  body = JsonBody (case jsonParse t of Some j \<Rightarrow> Parsed j | None \<Rightarrow> MessageObj t) \<rparr>,
            [upstreamCall (extOf name) fileData (the (form ''apiKey'')) (the (form ''universeId''))
               (the (form ''placeId'')) (the (form ''versionType''))])"
  using assms(3-7)
  by (simp add: handlePublish_valid [OF assms(1,2)] publishUpstream_answered jsonResponse_Inr
        catchServerError_Inr)

section \<open>Properties of the publish handler\<close>

text \<open>
  C4. A form that lacks any of the five fields \<^verbatim>\<open>placeFile\<close>, \<^verbatim>\<open>apiKey\<close>,
  \<^verbatim>\<open>universeId\<close>, \<^verbatim>\<open>placeId\<close>, \<^verbatim>\<open>versionType\<close> is answered with status 400 and the JSON
  body \<^verbatim>\<open>{ error: "Missing required form fields" }\<close>, and \<^verbatim>\<open>fetch\<close> is never called.
\<close>

theorem missing_field_rejected:
  assumes "formData req = Inr form"
    and "\<exists>k \<in> set [''placeFile'', ''apiKey'', ''universeId'', ''placeId'', ''versionType'']. form k = None"
  shows "handlePublish fetch jsonParse req =
           (Inr \<lparr> status = 400, statusText = [], headers = jsonHeaders,
                  body = JsonBody (ErrorObj ''Missing required form fields'') \<rparr>, [])"
proof -
  have "truthy None = False" by (simp add: truthy_def)
  with assms(2) have "\<not> truthy (form ''placeFile'') \<or> \<not> truthy (form ''apiKey'')
      \<or> \<not> truthy (form ''universeId'') \<or> \<not> truthy (form ''placeId'') \<or> \<not> truthy (form ''versionType'')"
    by auto
  with assms(1) show ?thesis
    by (intro handlePublish_of_400 publishTry_missing)
qed

theorem missing_field_rejected_witness:
  "handlePublish upstreamUnreachable jsonParseSample
     (publishRequest ((sampleForm ''place.rbxl'' expected)(''apiKey'' := None))) =
   (Inr \<lparr> status = 400, statusText = [], headers = jsonHeaders,
          body = JsonBody (ErrorObj ''Missing required form fields'') \<rparr>, [])"
  by (rule missing_field_rejected [where form = "(sampleForm ''place.rbxl'' expected)(''apiKey'' := None)"])
     (simp_all add: publishRequest_def)

text \<open>
  C9. A form in which one of the string fields \<^verbatim>\<open>apiKey\<close>, \<^verbatim>\<open>universeId\<close>, \<^verbatim>\<open>placeId\<close>,
  \<^verbatim>\<open>versionType\<close> is the empty string is answered like a form without that field:
  status 400, the missing-fields error, no call of \<^verbatim>\<open>fetch\<close>.
\<close>

theorem empty_field_rejected:
  assumes "formData req = Inr form"
    and "\<exists>k \<in> set [''apiKey'', ''universeId'', ''placeId'', ''versionType'']. form k = Some (StringEntry [])"
  shows "handlePublish fetch jsonParse req =
           (Inr \<lparr> status = 400, statusText = [], headers = jsonHeaders,
                  body = JsonBody (ErrorObj ''Missing required form fields'') \<rparr>, [])"
proof -
  have "truthy (Some (StringEntry [])) = False" by (simp add: truthy_def)
  with assms(2) have "\<not> truthy (form ''placeFile'') \<or> \<not> truthy (form ''apiKey'')
      \<or> \<not> truthy (form ''universeId'') \<or> \<not> truthy (form ''placeId'') \<or> \<not> truthy (form ''versionType'')"
    by auto
  with assms(1) show ?thesis
    by (intro handlePublish_of_400 publishTry_missing)
qed

theorem empty_field_rejected_witness:
  "handlePublish upstreamUnreachable jsonParseSample
     (publishRequest ((sampleForm ''place.rbxl'' expected)(''placeId'' := Some (StringEntry [])))) =
   (Inr \<lparr> status = 400, statusText = [], headers = jsonHeaders,
          body = JsonBody (ErrorObj ''Missing required form fields'') \<rparr>, [])"
  by (rule empty_field_rejected
        [where form = "(sampleForm ''place.rbxl'' expected)(''placeId'' := Some (StringEntry []))"])
     (simp_all add: publishRequest_def)

text \<open>
  C5. For a file whose extension is \<^verbatim>\<open>rbxl\<close>, \<^verbatim>\<open>fetch\<close> is called only if the first 14
  bytes are the signature; with any other first 14 bytes the answer is a 400 JSON error
  and \<^verbatim>\<open>fetch\<close> is not called; a file of fewer than 14 bytes is such a case.
\<close>

theorem binary_signature_gate:
  assumes "formData req = Inr form"
    and "form ''placeFile'' = Some (FileEntry name fileData)"
    and "extOf name = ''rbxl''"
  shows "(snd (handlePublish fetch jsonParse req) \<noteq> [] \<longrightarrow> take 14 fileData = expected)
       \<and> (take 14 fileData \<noteq> expected \<longrightarrow>
            (\<exists>msg. handlePublish fetch jsonParse req =
               (Inr \<lparr> status = 400, statusText = [], headers = jsonHeaders,
                      body = JsonBody (ErrorObj msg) \<rparr>, [])))
       \<and> (length fileData < 14 \<longrightarrow> take 14 fileData \<noteq> expected)"
proof -
  have rejected: "\<exists>msg. handlePublish fetch jsonParse req =
               (Inr \<lparr> status = 400, statusText = [], headers = jsonHeaders,
                      body = JsonBody (ErrorObj msg) \<rparr>, [])"
    if bad: "take 14 fileData \<noteq> expected"
  proof (cases "truthy (form ''apiKey'') \<and> truthy (form ''universeId'')
                \<and> truthy (form ''placeId'') \<and> truthy (form ''versionType'')")
    case True
    from assms(3) have "name \<noteq> []" using extOf_empty by auto
    with True assms bad show ?thesis
      by (simp add: handlePublish_present [OF assms(1,2)])
  next
    case False
    then show ?thesis
      using handlePublish_missing [OF assms(1), of fetch jsonParse] by blast
  qed
  have "snd (handlePublish fetch jsonParse req) = []" if "take 14 fileData \<noteq> expected"
    using rejected [OF that] by auto
  with rejected short_is_mismatch show ?thesis by blast
qed

theorem binary_signature_gate_witness:
  "handlePublish upstreamUnreachable jsonParseSample
     (publishRequest (sampleForm ''place.rbxl'' truncatedFile)) =
   (Inr \<lparr> status = 400, statusText = [], headers = jsonHeaders,
          body = JsonBody (ErrorObj
            ''RBXL signature mismatch. Ensure you're sending a valid .rbxl file.'') \<rparr>, [])
   \<and> length truncatedFile < 14"
proof -
  let ?form = "sampleForm ''place.rbxl'' truncatedFile"
  let ?req = "publishRequest ?form"
  have f: "formData ?req = Inr ?form" by (simp add: publishRequest_def)
  have p: "?form ''placeFile'' = Some (FileEntry ''place.rbxl'' truncatedFile)"
    by (simp add: sampleForm_def)
  have e: "extOf ''place.rbxl'' = ''rbxl''"
    by (simp add: extOf_def pop_def orEmpty_def toLowerCase_def toLowerCaseChar_def)
  have short: "length truncatedFile < 14" by (simp add: truncatedFile_def expected_def)
  have nonempty: "truncatedFile \<noteq> []" by (simp add: truncatedFile_def expected_def)
  have t: "truthy (?form ''apiKey'')" "truthy (?form ''universeId'')"
    "truthy (?form ''placeId'')" "truthy (?form ''versionType'')"
    by (simp_all add: sampleForm_def truthy_def)
  from binary_signature_gate [OF f p e, of upstreamUnreachable jsonParseSample] short
  have bad: "take 14 truncatedFile \<noteq> expected" by blast
  have "handlePublish upstreamUnreachable jsonParseSample ?req =
     (Inr \<lparr> status = 400, statusText = [], headers = jsonHeaders,
          body = JsonBody (ErrorObj
            ''RBXL signature mismatch. Ensure you're sending a valid .rbxl file.'') \<rparr>, [])"
    using bad nonempty by (simp add: handlePublish_present [OF f p t] e)
  with short show ?thesis by simp
qed

text \<open>
  C3. A file whose name has no dot at all is not rejected when the whole name is
  \<^verbatim>\<open>rbxl\<close>: \<^verbatim>\<open>split('.').pop()\<close> returns the whole name, the extension check passes and
  the file is sent upstream as a binary place.
\<close>

theorem dotless_name_sent_upstream:
  "handlePublish (upstreamReplies 200 ''OK'') jsonParseSample
     (publishRequest (sampleForm ''rbxl'' expected)) =
   (Inr \<lparr> status = 200, statusText = [], headers = jsonHeaders,
          body = JsonBody (MessageObj ''OK'') \<rparr>,
    [\<lparr> callUrl = ''https://apis.roblox.com/universes/v1/11/places/22/versions?versionType=Published'',
       callMethod = ''POST'',
       callHeaders =
         [(''x-api-key'', ''key''),
          (''Content-Type'', ''application/octet-stream''),
          (''Accept'', ''application/json, text/plain;q=0.9, */*;q=0.1''),
          (''User-Agent'', ''roblox-publisher/1.0'')],
       callBody = Some expected \<rparr>])"
proof -
  let ?form = "sampleForm ''rbxl'' expected"
  let ?req = "publishRequest ?form"
  have f: "formData ?req = Inr ?form" by (simp add: publishRequest_def)
  have p: "?form ''placeFile'' = Some (FileEntry ''rbxl'' expected)"
    by (simp add: sampleForm_def)
  have e: "extOf ''rbxl'' = ''rbxl''"
    by (simp add: extOf_def pop_def orEmpty_def toLowerCase_def toLowerCaseChar_def)
  have t: "truthy (?form ''apiKey'')" "truthy (?form ''universeId'')"
    "truthy (?form ''placeId'')" "truthy (?form ''versionType'')"
    by (simp_all add: sampleForm_def truthy_def)
  have n: "expected \<noteq> []" using length_expected by auto
  have s: "take 14 expected = expected" using length_expected by simp
  have v: "the (?form ''apiKey'') = StringEntry ''key''"
    "the (?form ''universeId'') = StringEntry ''11''"
    "the (?form ''placeId'') = StringEntry ''22''"
    "the (?form ''versionType'') = StringEntry ''Published''"
    by (simp_all add: sampleForm_def)
  have "handlePublish (upstreamReplies 200 ''OK'') jsonParseSample ?req =
        catchServerError (publishUpstream (upstreamReplies 200 ''OK'') jsonParseSample ''rbxl'' expected
          (StringEntry ''key'') (StringEntry ''11'') (StringEntry ''22'') (StringEntry ''Published''))"
    using n s by (simp add: handlePublish_present [OF f p t] e v)
  also have "\<dots> = (Inr \<lparr> status = 200, statusText = [], headers = jsonHeaders,
          body = JsonBody (MessageObj ''OK'') \<rparr>,
    [\<lparr> callUrl = ''https://apis.roblox.com/universes/v1/11/places/22/versions?versionType=Published'',
       callMethod = ''POST'',
       callHeaders =
         [(''x-api-key'', ''key''),
          (''Content-Type'', ''application/octet-stream''),
          (''Accept'', ''application/json, text/plain;q=0.9, */*;q=0.1''),
          (''User-Agent'', ''roblox-publisher/1.0'')],
       callBody = Some expected \<rparr>])"
    by (simp add: publishUpstream_def upstreamCall_def Let_def upstreamReplies_def jsonParseSample_def
          toString_def jsonResponse_Inr nullBodyStatus_def catchServerError_def)
  finally show ?thesis .
qed

text \<open>
  C10. The extension is matched without regard to letter case. When the last piece of the
  file name between dots is \<^verbatim>\<open>rbxl\<close> or \<^verbatim>\<open>rbxlx\<close> with any letters in upper case, the
  extension computed is the lower-case word, the extension check passes, the XML variant
  is gated by the XML header check and the binary variant by the signature check, and
  every call upstream carries the content type of that kind.
\<close>

theorem extension_case_insensitive:
  assumes "formData req = Inr form"
    and "form ''placeFile'' = Some (FileEntry (base @ s) fileData)"
    and "base = [] \<or> last base = CHR ''.''"
    and "caseVariant s ''rbxl'' \<or> caseVariant s ''rbxlx''"
    and "truthy (form ''apiKey'')" and "truthy (form ''universeId'')"
    and "truthy (form ''placeId'')" and "truthy (form ''versionType'')"
    and "fileData \<noteq> []"
  shows "extOf (base @ s) = (if caseVariant s ''rbxlx'' then ''rbxlx'' else ''rbxl'')
       \<and> handlePublish fetch jsonParse req =
           (if caseVariant s ''rbxlx'' then
              (if startsWith (xmlHead fileData) (lit ''<roblox'') then
                 catchServerError (publishUpstream fetch jsonParse ''rbxlx'' fileData
                   (the (form ''apiKey'')) (the (form ''universeId''))
                   (the (form ''placeId'')) (the (form ''versionType'')))
               else
                 (Inr \<lparr> status = 400, statusText = [], headers = jsonHeaders,
                        body = JsonBody (ErrorObj
                          ''RBXLX must start with <roblox (XML declaration allowed); got invalid XML header'') \<rparr>,
                  []))
            else
              (if take 14 fileData = expected then
                 catchServerError (publishUpstream fetch jsonParse ''rbxl'' fileData
                   (the (form ''apiKey'')) (the (form ''universeId''))
                   (the (form ''placeId'')) (the (form ''versionType'')))
               else
                 (Inr \<lparr> status = 400, statusText = [], headers = jsonHeaders,
                        body = JsonBody (ErrorObj
                          ''RBXL signature mismatch. Ensure you're sending a valid .rbxl file.'') \<rparr>,
                  [])))
       \<and> (\<forall>c \<in> set (snd (handlePublish fetch jsonParse req)).
             hget (callHeaders c) ''Content-Type'' =
               Some (if caseVariant s ''rbxlx'' then ''application/xml''
                     else ''application/octet-stream''))"
proof -
  have ext: "extOf (base @ s) = (if caseVariant s ''rbxlx'' then ''rbxlx'' else ''rbxl'')"
  proof (cases "caseVariant s ''rbxlx''")
    case True
    then have "toLowerCase s = ''rbxlx'' \<and> CHR ''.'' \<notin> set s" by (rule caseVariant_rbxlx)
    with True assms(3) show ?thesis by (simp add: extOf_last_piece)
  next
    case False
    with assms(4) have "caseVariant s ''rbxl''" by simp
    then have "toLowerCase s = ''rbxl'' \<and> CHR ''.'' \<notin> set s" by (rule caseVariant_rbxl)
    with False assms(3) show ?thesis by (simp add: extOf_last_piece)
  qed
  define name where "name = base @ s"
  have name: "name \<noteq> []"
    using assms(4) caseVariant_length unfolding name_def by fastforce
  have ext': "extOf name = (if caseVariant s ''rbxlx'' then ''rbxlx'' else ''rbxl'')"
    using ext by (simp add: name_def)
  from assms(2) have p: "form ''placeFile'' = Some (FileEntry name fileData)"
    by (simp add: name_def)
  note present = handlePublish_present [OF assms(1) p assms(5,6,7,8), of fetch jsonParse]
  have handler: "handlePublish fetch jsonParse req =
           (if caseVariant s ''rbxlx'' then
              (if startsWith (xmlHead fileData) (lit ''<roblox'') then
                 catchServerError (publishUpstream fetch jsonParse ''rbxlx'' fileData
                   (the (form ''apiKey'')) (the (form ''universeId''))
                   (the (form ''placeId'')) (the (form ''versionType'')))
               else
                 (Inr \<lparr> status = 400, statusText = [], headers = jsonHeaders,
                        body = JsonBody (ErrorObj
                          ''RBXLX must start with <roblox (XML declaration allowed); got invalid XML header'') \<rparr>,
                  []))
            else
              (if take 14 fileData = expected then
                 catchServerError (publishUpstream fetch jsonParse ''rbxl'' fileData
                   (the (form ''apiKey'')) (the (form ''universeId''))
                   (the (form ''placeId'')) (the (form ''versionType'')))
               else
                 (Inr \<lparr> status = 400, statusText = [], headers = jsonHeaders,
                        body = JsonBody (ErrorObj
                          ''RBXL signature mismatch. Ensure you're sending a valid .rbxl file.'') \<rparr>,
                  [])))"
    unfolding present using name assms(9) by (simp add: ext')
  have "\<forall>c \<in> set (snd (handlePublish fetch jsonParse req)).
             hget (callHeaders c) ''Content-Type'' =
               Some (if caseVariant s ''rbxlx'' then ''application/xml''
                     else ''application/octet-stream'')"
    unfolding handler
    by (simp add: snd_catchServerError snd_publishUpstream contentType_upstreamCall)
  with ext handler show ?thesis by blast
qed

theorem extension_case_insensitive_witness:
  "handlePublish (upstreamReplies 200 ''OK'') jsonParseSample
     (publishRequest (sampleForm ''My.Place.RbXlX'' xmlPlaceFile)) =
   (Inr \<lparr> status = 200, statusText = [], headers = jsonHeaders,
          body = JsonBody (MessageObj ''OK'') \<rparr>,
    [\<lparr> callUrl = ''https://apis.roblox.com/universes/v1/11/places/22/versions?versionType=Published'',
       callMethod = ''POST'',
       callHeaders =
         [(''x-api-key'', ''key''),
          (''Content-Type'', ''application/xml''),
          (''Accept'', ''application/json, text/plain;q=0.9, */*;q=0.1''),
          (''User-Agent'', ''roblox-publisher/1.0'')],
       callBody = Some xmlPlaceFile \<rparr>])"
proof -
  let ?form = "sampleForm ''My.Place.RbXlX'' xmlPlaceFile"
  have p: "?form ''placeFile'' = Some (FileEntry (''My.Place.'' @ ''RbXlX'') xmlPlaceFile)"
    by (simp add: sample_fields)
  have b: "''My.Place.'' = [] \<or> last ''My.Place.'' = CHR ''.''" by simp
  have v: "caseVariant ''RbXlX'' ''rbxlx''" by (simp add: caseVariant_def)
  then have v': "caseVariant ''RbXlX'' ''rbxl'' \<or> caseVariant ''RbXlX'' ''rbxlx''" ..
  have h: "startsWith (xmlHead xmlPlaceFile) (lit ''<roblox'')"
    by (rule xmlHead_root_prefix) (rule sample_files)
  from extension_case_insensitive [OF sample_formData p b v' sample_fields(2-5) sample_files(3),
      of "upstreamReplies 200 ''OK''" jsonParseSample]
  have "handlePublish (upstreamReplies 200 ''OK'') jsonParseSample (publishRequest ?form) =
          catchServerError (publishUpstream (upstreamReplies 200 ''OK'') jsonParseSample ''rbxlx''
            xmlPlaceFile (StringEntry ''key'') (StringEntry ''11'') (StringEntry ''22'')
            (StringEntry ''Published''))"
    using v h by (simp add: sample_fields)
  also have "\<dots> = (Inr \<lparr> status = 200, statusText = [], headers = jsonHeaders,
          body = JsonBody (MessageObj ''OK'') \<rparr>,
      [upstreamCall ''rbxlx'' xmlPlaceFile (StringEntry ''key'') (StringEntry ''11'')
         (StringEntry ''22'') (StringEntry ''Published'')])"
    by (simp add: publishUpstream_answered [where up = "\<lparr> upStatus = 200, upStatusText = [],
            upHeaders = [], upBody = Some (ascii ''OK''), upText = Inr ''OK'' \<rparr>" and t = "''OK''"]
          upstreamReplies_def jsonParseSample_def jsonResponse_Inr nullBodyStatus_def
          catchServerError_Inr)
  finally show ?thesis by (simp add: sample_upstreamCall)
qed

text \<open>
  C2, as the claim states it, fails: the XML file \<^verbatim>\<open><robloxBAD></robloxBAD>\<close>, with no
  declaration and the wrong root element, is not rejected. It begins with the seven
  characters \<^verbatim>\<open><roblox\<close>, which is all that line 105 tests, and is sent upstream.
\<close>

theorem bad_root_sent_upstream:
  "handlePublish (upstreamReplies 200 ''OK'') jsonParseSample
     (publishRequest (sampleForm ''place.rbxlx'' badRootFile)) =
   (Inr \<lparr> status = 200, statusText = [], headers = jsonHeaders,
          body = JsonBody (MessageObj ''OK'') \<rparr>,
    [\<lparr> callUrl = ''https://apis.roblox.com/universes/v1/11/places/22/versions?versionType=Published'',
       callMethod = ''POST'',
       callHeaders =
         [(''x-api-key'', ''key''),
          (''Content-Type'', ''application/xml''),
          (''Accept'', ''application/json, text/plain;q=0.9, */*;q=0.1''),
          (''User-Agent'', ''roblox-publisher/1.0'')],
       callBody = Some badRootFile \<rparr>])"
  by (simp add: handlePublish_valid [OF sample_formData sample_valid(3)] sample_extensions
        sample_fields sample_answer_OK sample_upstreamCall)

text \<open>
  C2, amended. For an XML-declared file in an otherwise valid form, let the head be the
  decoded first 2048 bytes, trimmed at the start, with a leading XML declaration and the
  white space after it removed. If the head does not begin with the characters
  \<^verbatim>\<open><roblox\<close>, the answer is status 400 with the XML-header error and \<^verbatim>\<open>fetch\<close> is not
  called; if it does, the file is sent upstream. Only these seven characters are tested:
  any file whose bytes begin with them passes, whatever follows.
\<close>

theorem xml_header_gate:
  assumes "formData req = Inr form"
    and "form ''placeFile'' = Some (FileEntry name fileData)"
    and "extOf name = ''rbxlx''"
    and "truthy (form ''apiKey'')" and "truthy (form ''universeId'')"
    and "truthy (form ''placeId'')" and "truthy (form ''versionType'')"
    and "fileData \<noteq> []"
  shows "(\<not> startsWith (xmlHead fileData) (lit ''<roblox'') \<longrightarrow>
            handlePublish fetch jsonParse req =
              (Inr \<lparr> status = 400, statusText = [], headers = jsonHeaders,
                     body = JsonBody (ErrorObj
                       ''RBXLX must start with <roblox (XML declaration allowed); got invalid XML header'') \<rparr>,
               []))
       \<and> (startsWith (xmlHead fileData) (lit ''<roblox'') \<longrightarrow>
            snd (handlePublish fetch jsonParse req) =
              [upstreamCall ''rbxlx'' fileData (the (form ''apiKey'')) (the (form ''universeId''))
                 (the (form ''placeId'')) (the (form ''versionType''))])
       \<and> (startsWith fileData (ascii ''<roblox'') \<longrightarrow>
            startsWith (xmlHead fileData) (lit ''<roblox''))"
proof -
  from assms(3) have "name \<noteq> []" using extOf_empty by auto
  with assms(3,8) show ?thesis
    by (simp add: handlePublish_present [OF assms(1,2,4,5,6,7)] snd_catchServerError
          snd_publishUpstream xmlHead_root_prefix)
qed

theorem xml_header_gate_witness:
  "handlePublish (upstreamReplies 200 ''OK'') jsonParseSample
     (publishRequest (sampleForm ''place.rbxlx'' webPageFile)) =
   (Inr \<lparr> status = 400, statusText = [], headers = jsonHeaders,
          body = JsonBody (ErrorObj
            ''RBXLX must start with <roblox (XML declaration allowed); got invalid XML header'') \<rparr>,
    [])"
  using xml_header_gate [OF sample_formData sample_fields(1) sample_extensions(2)
      sample_fields(2-5) sample_files(7), of "upstreamReplies 200 ''OK''" jsonParseSample]
    webPage_head
  by simp

text \<open>
  C6. A request that passes validation makes exactly one call of \<^verbatim>\<open>fetch\<close>: a POST whose
  body is the uploaded bytes, with the content type \<^verbatim>\<open>application/octet-stream\<close> for the
  extension \<^verbatim>\<open>rbxl\<close> and \<^verbatim>\<open>application/xml\<close> for \<^verbatim>\<open>rbxlx\<close>. No other request makes a
  call, so no other pair of extension and content type is emitted.
\<close>

theorem one_upstream_post:
  "(\<forall>form name fileData.
      formData req = Inr form \<and> passesValidation form name fileData \<longrightarrow>
      (\<exists>c. snd (handlePublish fetch jsonParse req) = [c]
           \<and> callMethod c = ''POST'' \<and> callBody c = Some fileData
           \<and> ((extOf name = ''rbxl''
                \<and> hget (callHeaders c) ''Content-Type'' = Some ''application/octet-stream'')
              \<or> (extOf name = ''rbxlx''
                \<and> hget (callHeaders c) ''Content-Type'' = Some ''application/xml''))))
   \<and> (snd (handlePublish fetch jsonParse req) = []
      \<or> (\<exists>form name fileData. formData req = Inr form \<and> passesValidation form name fileData))"
proof (intro conjI allI impI)
  fix form name fileData
  assume a: "formData req = Inr form \<and> passesValidation form name fileData"
  then have e: "extOf name = ''rbxl'' \<or> extOf name = ''rbxlx''"
    by (simp add: passesValidation_def)
  let ?c = "upstreamCall (extOf name) fileData (the (form ''apiKey'')) (the (form ''universeId''))
              (the (form ''placeId'')) (the (form ''versionType''))"
  from a have "snd (handlePublish fetch jsonParse req) = [?c]"
    by (simp add: handlePublish_valid [of req form name fileData] snd_catchServerError
          snd_publishUpstream)
  moreover have "callMethod ?c = ''POST''" "callBody ?c = Some fileData"
    by (simp_all add: upstreamCall_fields)
  moreover from e have "(extOf name = ''rbxl''
                \<and> hget (callHeaders ?c) ''Content-Type'' = Some ''application/octet-stream'')
              \<or> (extOf name = ''rbxlx''
                \<and> hget (callHeaders ?c) ''Content-Type'' = Some ''application/xml'')"
    by (auto simp: contentType_upstreamCall)
  ultimately show "\<exists>c. snd (handlePublish fetch jsonParse req) = [c]
           \<and> callMethod c = ''POST'' \<and> callBody c = Some fileData
           \<and> ((extOf name = ''rbxl''
                \<and> hget (callHeaders c) ''Content-Type'' = Some ''application/octet-stream'')
              \<or> (extOf name = ''rbxlx''
                \<and> hget (callHeaders c) ''Content-Type'' = Some ''application/xml''))"
    by blast
next
  show "snd (handlePublish fetch jsonParse req) = []
      \<or> (\<exists>form name fileData. formData req = Inr form \<and> passesValidation form name fileData)"
  proof (cases "formData req")
    case (Inl e)
    then show ?thesis by (simp add: handlePublish_thrown_form)
  next
    case (Inr form)
    then show ?thesis using calls_imp_valid [OF Inr, of fetch jsonParse] by blast
  qed
qed

theorem one_upstream_post_witness:
  "\<exists>c. snd (handlePublish (upstreamReplies 200 ''OK'') jsonParseSample
            (publishRequest (sampleForm ''place.rbxl'' expected))) = [c]
      \<and> callMethod c = ''POST'' \<and> callBody c = Some expected
      \<and> hget (callHeaders c) ''Content-Type'' = Some ''application/octet-stream''"
proof -
  let ?form = "sampleForm ''place.rbxl'' expected"
  let ?calls = "snd (handlePublish (upstreamReplies 200 ''OK'') jsonParseSample (publishRequest ?form))"
  have h: "formData (publishRequest ?form) = Inr ?form
           \<and> passesValidation ?form ''place.rbxl'' expected"
    by (simp add: sample_formData sample_valid)
  from one_upstream_post [of "publishRequest ?form" "upstreamReplies 200 ''OK''" jsonParseSample]
  have "formData (publishRequest ?form) = Inr ?form
          \<and> passesValidation ?form ''place.rbxl'' expected \<longrightarrow>
        (\<exists>c. ?calls = [c] \<and> callMethod c = ''POST'' \<and> callBody c = Some expected
           \<and> ((extOf ''place.rbxl'' = ''rbxl''
                \<and> hget (callHeaders c) ''Content-Type'' = Some ''application/octet-stream'')
              \<or> (extOf ''place.rbxl'' = ''rbxlx''
                \<and> hget (callHeaders c) ''Content-Type'' = Some ''application/xml'')))"
    by blast
  with h obtain c where "?calls = [c]" "callMethod c = ''POST''" "callBody c = Some expected"
    "(extOf ''place.rbxl'' = ''rbxl''
        \<and> hget (callHeaders c) ''Content-Type'' = Some ''application/octet-stream'')
     \<or> (extOf ''place.rbxl'' = ''rbxlx''
        \<and> hget (callHeaders c) ''Content-Type'' = Some ''application/xml'')"
    by blast
  then show ?thesis by (auto simp: sample_extensions)
qed

text \<open>
  C1, as the claim states it, fails: when \<^verbatim>\<open>fetch\<close> throws for a valid request, the status
  of the answer is 500, not 502. The handler has one \<^verbatim>\<open>catch\<close> block for everything its
  \<^verbatim>\<open>try\<close> block throws.
\<close>

theorem unreachable_upstream_status_500:
  "handlePublish upstreamUnreachable jsonParseSample
     (publishRequest (sampleForm ''place.rbxl'' expected)) =
   (Inr \<lparr> status = 500, statusText = [], headers = jsonHeaders,
          body = JsonBody (ErrorObj ''Server error: error sending request'') \<rparr>,
    [upstreamCall ''rbxl'' expected (StringEntry ''key'') (StringEntry ''11'')
       (StringEntry ''22'') (StringEntry ''Published'')])
   \<and> statusOf (handlePublish upstreamUnreachable jsonParseSample
        (publishRequest (sampleForm ''place.rbxl'' expected))) \<noteq> Some 502"
  by (simp add: handlePublish_valid [OF sample_formData sample_valid(1)] sample_extensions
        sample_fields publishUpstream_thrown upstreamUnreachable_def catchServerError_Inl
        statusOf_def)

text \<open>
  C1, amended. For a request that passes normalization and signature validation, if the
  call of \<^verbatim>\<open>fetch\<close> throws, the handler answers with status 500 and the JSON body
  \<^verbatim>\<open>{ error: "Server error: " + message }\<close>, the message being that of the thrown error;
  the one call of \<^verbatim>\<open>fetch\<close> was made.
\<close>

theorem unreachable_upstream_server_error:
  assumes "formData req = Inr form"
    and "passesValidation form name fileData"
    and "fetch (upstreamCall (extOf name) fileData (the (form ''apiKey'')) (the (form ''universeId''))
           (the (form ''placeId'')) (the (form ''versionType''))) = Inl e"
  shows "handlePublish fetch jsonParse req =
           (Inr \<lparr> status = 500, statusText = [], headers = jsonHeaders,
                  body = JsonBody (ErrorObj (''Server error: '' @ message e)) \<rparr>,
            [upstreamCall (extOf name) fileData (the (form ''apiKey'')) (the (form ''universeId''))
               (the (form ''placeId'')) (the (form ''versionType''))])"
  using assms(3)
  by (simp add: handlePublish_valid [OF assms(1,2)] publishUpstream_thrown catchServerError_Inl)

theorem unreachable_upstream_server_error_witness:
  "handlePublish upstreamUnreachable jsonParseSample
     (publishRequest (sampleForm ''place.rbxlx'' xmlPlaceFile)) =
   (Inr \<lparr> status = 500, statusText = [], headers = jsonHeaders,
          body = JsonBody (ErrorObj ''Server error: error sending request'') \<rparr>,
    [upstreamCall ''rbxlx'' xmlPlaceFile (StringEntry ''key'') (StringEntry ''11'')
       (StringEntry ''22'') (StringEntry ''Published'')])"
  using unreachable_upstream_server_error [OF sample_formData sample_valid(2),
      of upstreamUnreachable "Exn TypeError ''error sending request''" jsonParseSample]
  by (simp add: upstreamUnreachable_def sample_extensions sample_fields)

text \<open>
  C7. The upstream status is not always returned unchanged: an upstream answer with
  status 204 and an empty body makes the \<^verbatim>\<open>Response\<close> constructor of line 149 throw (the
  body \<^verbatim>\<open>{"message":""}\<close> is not allowed with a null body status), and the caller gets
  status 500.
\<close>

theorem no_content_status_becomes_500:
  "handlePublish (upstreamReplies 204 []) jsonParseSample
     (publishRequest (sampleForm ''place.rbxl'' expected)) =
   (Inr \<lparr> status = 500, statusText = [], headers = jsonHeaders,
          body = JsonBody (ErrorObj
            ''Server error: Response with null body status cannot have body'') \<rparr>,
    [upstreamCall ''rbxl'' expected (StringEntry ''key'') (StringEntry ''11'')
       (StringEntry ''22'') (StringEntry ''Published'')])"
  by (simp add: handlePublish_valid [OF sample_formData sample_valid(1)] sample_extensions
        sample_fields
        publishUpstream_answered [where up = "\<lparr> upStatus = 204, upStatusText = [],
          upHeaders = [], upBody = None, upText = Inr [] \<rparr>" and t = "[]"]
        upstreamReplies_def jsonParseSample_def jsonResponse_def newResponse_def nullBodyStatus_def
        catchServerError_Inl)

section \<open>Properties of the dispatcher\<close>

text \<open>
  What holds of the dispatcher. Every response it returns has the three cross-origin
  headers, an \<^verbatim>\<open>OPTIONS\<close> request is answered with status 204, no body and these headers
  whatever its path, and the handler throws only on the static route, when the file
  server's response has immutable headers.
\<close>

lemma setEach_cors:
  "setEach ResponseGuard corsHeaders hs = Inr (setCors hs)"
  "setEach ImmutableGuard corsHeaders hs = Inl (Exn TypeError ''Headers are immutable.'')"
  by (simp_all add: corsHeaders_def setCors_def headersSet_def)

lemma setEach_returns: "setEach g corsHeaders hs = Inr hs' \<Longrightarrow> hs' = setCors hs"
  by (cases g) (simp_all add: setEach_cors)

lemma preflight_answer:
  "reqMethod req = ''OPTIONS'' \<Longrightarrow>
   serve fetch jsonParse serveDir req =
     (Inr \<lparr> status = 204, statusText = [], headers = corsHeaders, body = NoBody \<rparr>, [])"
  by (simp add: serve_def newResponse_preflight)

lemma returned_response_has_cors:
  fixes r :: "'j response"
  assumes "fst (serve fetch jsonParse serveDir req) = Inr r"
  shows "hasCors (headers r)"
proof (cases "reqMethod req = ''OPTIONS''")
  case True
  with assms show ?thesis by (auto simp: preflight_answer hasCors_simps)
next
  case notOptions: False
  show ?thesis
  proof (cases "pathname req = ''/publish'' \<and> reqMethod req = ''POST''")
    case True
    with notOptions assms show ?thesis
      using handlePublish_returns [of fetch jsonParse req]
      by (auto simp: serve_def hasCors_simps)
  next
    case notPublish: False
    show ?thesis
    proof (cases "pathname req = ''/asset''")
      case True
      have "\<exists>r' :: 'j response. fst (handleAssetProxy fetch req) = Inr r' \<and> hasCors (headers r')"
        by (rule handleAssetProxy_returns)
      with True notOptions notPublish assms show ?thesis
        by (auto simp: serve_def)
    next
      case False
      with notOptions notPublish assms show ?thesis
        by (auto simp: serve_def Let_def hasCors_simps
            dest!: setEach_returns split: sum.splits prod.splits if_splits)
    qed
  qed
qed

lemma thrown_only_on_immutable:
  fixes serveDir :: "request \<Rightarrow> exn + guard \<times> 'j response"
  assumes "fst (serve fetch jsonParse serveDir req) = Inl e"
  shows "\<exists>r. serveDir req = Inr (ImmutableGuard, r)"
proof (cases "reqMethod req = ''OPTIONS''")
  case True
  with assms show ?thesis by (simp add: preflight_answer)
next
  case notOptions: False
  show ?thesis
  proof (cases "pathname req = ''/publish'' \<and> reqMethod req = ''POST''")
    case True
    with notOptions assms show ?thesis
      using handlePublish_returns [of fetch jsonParse req] by (auto simp: serve_def)
  next
    case notPublish: False
    show ?thesis
    proof (cases "pathname req = ''/asset''")
      case True
      have "\<exists>r' :: 'j response. fst (handleAssetProxy fetch req) = Inr r' \<and> hasCors (headers r')"
        by (rule handleAssetProxy_returns)
      with True notOptions notPublish assms show ?thesis
        by (auto simp: serve_def)
    next
      case False
      have "g = ImmutableGuard" if "setEach g corsHeaders hs = Inl e'" for g hs e'
        using that by (cases g) (simp_all add: setEach_cors)
      with False notOptions notPublish assms show ?thesis
        by (auto simp: serve_def Let_def newResponse_text
            split: sum.splits prod.splits if_splits)
    qed
  qed
qed

text \<open>
  C8. Not every outcome of the dispatcher carries the cross-origin headers. When the
  static file server answers with \<^verbatim>\<open>Response.redirect\<close>, whose headers are immutable,
  the first \<^verbatim>\<open>response.headers.set\<close> of line 198 throws, the handler returns no
  response, and so none with the three headers.
\<close>

theorem redirect_leaves_handler_throwing:
  "serve upstreamUnreachable jsonParseSample serveDirRedirects doubleSlashRequest =
     (Inl (Exn TypeError ''Headers are immutable.''), [])"
  by (simp add: serve_def doubleSlashRequest_def serveDirRedirects_def Let_def setEach_cors)

end
